theory Spec2Isabelle
  imports Main "HOL-Library.Word"
begin

unbundle bit_operations_syntax

section \<open>Pointers, failures and system calls\<close>

text \<open>
  A C pointer is modelled by the identity of the object it points to (a \<open>handle\<close>);
  a pointer that may be \<open>NULL\<close> is a \<open>handle option\<close>. A failed \<open>assert\<close> and a
  dereference of \<open>NULL\<close> end the handler: they are the \<open>Inl\<close> results.
\<close>

type_synonym handle = nat

datatype error = AssertionFailed | NullDereference

section \<open>data-control.c: the clipboard source\<close>

text \<open>
  \<open>struct data_control\<close> is declared in data-control.h; the fields are the ones
  data-control.c reads and writes. \<open>cb_data\<close> is the malloc'ed copy of the clipboard
  text (\<open>None\<close> is \<open>NULL\<close>), \<open>cb_len\<close> is a \<open>size_t\<close>.
\<close>

record data_control =
  dc_wl_display :: "handle option"
  dc_server :: "handle option"
  dc_manager :: "handle option"
  dc_device :: "handle option"
  selection :: "handle option"
  primary_selection :: "handle option"
  cb_data :: "8 word list option"
  cb_len :: "64 word"
  mime_type :: string
  offer :: "handle option"

text \<open>What data-control.c asks of libc, the logger and the compositor, in the order asked.\<close>

datatype dc_call =
    Sys_write "32 word" "8 word list" "64 word"
  | Sys_close "32 word"
  | Log_error string
  | Free_cb_data
  | Create_data_source handle "handle option"
  | Source_add_listener handle
  | Source_offer handle string
  | Device_set_selection "handle option" handle
  | Device_set_primary_selection "handle option" handle

text \<open>
  \<open>data_control_source_send\<close>: \<open>wr\<close> is the \<open>ssize_t\<close> that \<open>write(fd, d, len)\<close>
  returns. The source stores it in an \<open>int\<close> (\<open>int ret = write(...)\<close>) and compares
  it with \<open>(int)len\<close>: both conversions keep the low 32 bits, and the comparison is signed.
\<close>

definition data_control_source_send ::
  "data_control \<Rightarrow> 32 word \<Rightarrow> 64 word \<Rightarrow> error + dc_call list" where
  "data_control_source_send self fd wr =
     (case cb_data self of
        None \<Rightarrow> Inl AssertionFailed
      | Some d \<Rightarrow>
          (let len = cb_len self;
               ret = (ucast wr :: 32 word)
           in Inr ([Sys_write fd d len]
                   @ (if sint ret < sint (ucast len :: 32 word)
                      then [Log_error ''write from clipboard incomplete''] else [])
                   @ [Sys_close fd])))"

text \<open>
  \<open>set_selection\<close>: \<open>src\<close> is what
  \<open>zwlr_data_control_manager_v1_create_data_source\<close> returns (asked only when the
  manager is there). The result is the returned source, the record and the calls made.
\<close>

definition set_selection ::
  "data_control \<Rightarrow> bool \<Rightarrow> handle option \<Rightarrow> handle option \<times> data_control \<times> dc_call list" where
  "set_selection self primary src =
     (case dc_manager self of
        None \<Rightarrow> (None, self, [])
      | Some m \<Rightarrow>
          (case src of
             None \<Rightarrow>
               (None, self\<lparr>cb_data := None\<rparr>,
                [Create_data_source m None,
                 Log_error ''zwlr_data_control_manager_v1_create_data_source() failed'',
                 Free_cb_data])
           | Some sel \<Rightarrow>
               (Some sel, self,
                [Create_data_source m (Some sel), Source_add_listener sel,
                 Source_offer sel (mime_type self),
                 (if primary then Device_set_primary_selection (dc_device self) sel
                  else Device_set_selection (dc_device self) sel)])))"

text \<open>
  \<open>data_control_to_clipboard\<close>: \<open>text\<close> holds the \<open>len\<close> bytes the caller passes,
  \<open>malloc_ok\<close> says whether \<open>malloc(len)\<close> succeeds, \<open>src1\<close> and \<open>src2\<close> are the
  data sources the compositor hands out for the two \<open>set_selection\<close> calls.
\<close>

definition data_control_to_clipboard ::
  "data_control \<Rightarrow> 8 word list \<Rightarrow> 64 word \<Rightarrow> bool \<Rightarrow> handle option \<Rightarrow> handle option
     \<Rightarrow> data_control \<times> dc_call list" where
  "data_control_to_clipboard self text len malloc_ok src1 src2 =
     (if len = 0 then (self, [Log_error ''data_control_to_clipboard called with 0 length''])
      else if \<not> malloc_ok then (self\<lparr>cb_data := None\<rparr>, [Free_cb_data, Log_error ''OOM''])
      else
        (let self1 = self\<lparr>cb_data := Some (take (unat len) text), cb_len := len\<rparr>;
             (sel, self2, calls1) = set_selection self1 False src1;
             self3 = self2\<lparr>selection := sel\<rparr>;
             (psel, self4, calls2) = set_selection self3 True src2;
             self5 = self4\<lparr>primary_selection := psel\<rparr>
         in (self5, Free_cb_data # calls1 @ calls2)))"

section \<open>Buffers, damage regions and pools (buffer.h, pixman)\<close>

datatype wv_buffer_domain =
  WV_BUFFER_DOMAIN_UNSPEC | WV_BUFFER_DOMAIN_OUTPUT | WV_BUFFER_DOMAIN_CURSOR

datatype wv_buffer_type = WV_BUFFER_UNSPEC | WV_BUFFER_SHM | WV_BUFFER_DMABUF

record pixman_box16 =
  x1 :: "16 word"
  y1 :: "16 word"
  x2 :: "16 word"
  y2 :: "16 word"

text \<open>
  Modelled from the spec: the damage region (pixman is a library outside the
  repository). A \<open>pixman_region16\<close> is kept as the list of boxes that
  \<open>pixman_region_rectangles\<close> enumerates: a set of axis-aligned rectangles whose only
  combination operator is union, in which duplicates and overlaps are harmless and
  which clearing resets to empty. \<open>damage_box\<close> is the box of a rectangle given by its
  corner, width and height, in the 16-bit coordinates of the region.
\<close>

type_synonym pixman_region16 = "pixman_box16 list"

definition pixman_region_rectangles :: "pixman_region16 \<Rightarrow> pixman_box16 list" where
  "pixman_region_rectangles reg = reg"

definition pixman_region_not_empty :: "pixman_region16 \<Rightarrow> bool" where
  "pixman_region_not_empty reg = (reg \<noteq> [])"

definition pixman_region_clear :: "pixman_region16" where
  "pixman_region_clear = []"

definition pixman_region_union :: "pixman_region16 \<Rightarrow> pixman_region16 \<Rightarrow> pixman_region16" where
  "pixman_region_union a b = a @ b"

definition damage_box :: "32 word \<Rightarrow> 32 word \<Rightarrow> 32 word \<Rightarrow> 32 word \<Rightarrow> pixman_box16" where
  "damage_box x y w h = \<lparr>x1 = ucast x, y1 = ucast y, x2 = ucast (x + w), y2 = ucast (y + h)\<rparr>"

text \<open>
  \<open>struct wv_buffer\<close> (buffer.h): the fields ext-screencopy.c touches.
  \<open>buffer_damage\<close> is the buffer's own pending damage (how stale its content is),
  \<open>frame_damage\<close> the damage accumulated for the frame being captured.
\<close>

record wv_buffer =
  domain :: wv_buffer_domain
  wl_buffer :: handle
  buf_width :: "32 word"
  buf_height :: "32 word"
  buffer_damage :: pixman_region16
  frame_damage :: pixman_region16
  nvnc_fb_transform :: "32 word"

record wv_buffer_pool =
  queue :: "handle list"
  pool_type :: wv_buffer_type
  pool_width :: "32 word"
  pool_height :: "32 word"
  pool_stride :: "32 word"
  pool_format :: "32 word"

datatype screencopy_status = SCREENCOPY_DONE | SCREENCOPY_FAILED

text \<open>
  The requests ext-screencopy.c sends on the protocol objects, its callbacks into the
  caller and its releases of memory, in the order made.
\<close>

datatype call =
    Surface_destroy handle
  | Capture_output "handle option" "handle option" "handle option"
  | Surface_add_listener handle
  | Attach_buffer handle handle
  | Damage_buffer handle "32 word" "32 word" "32 word" "32 word"
  | Damage_cursor_buffer handle string
  | Attach_cursor_buffer handle handle string
  | Commit handle "32 word"
  | On_done screencopy_status "handle option" "handle option"
  | Pool_create "handle option"
  | Pool_destroy handle
  | Free_session

text \<open>
  Everything outside the session struct: the buffer objects (\<open>bufs\<close>, by address), the
  buffers registered for cross-buffer damage, the pools (by address), the address the
  next freshly allocated buffer gets, the answers the compositor and the pool allocator
  will give to the creation requests to come (\<open>None\<close> answers \<open>NULL\<close>, and so does an
  exhausted list), and the calls made so far (oldest first).
\<close>

record world =
  bufs :: "handle \<Rightarrow> wv_buffer"
  wv_buffer_registry :: "handle list"
  pools :: "handle \<Rightarrow> wv_buffer_pool"
  next_buffer :: handle
  fresh_surfaces :: "handle option list"
  fresh_pools :: "handle option list"
  trace :: "call list"

definition emit :: "call \<Rightarrow> world \<Rightarrow> world" where
  "emit c w = w\<lparr>trace := trace w @ [c]\<rparr>"

definition update_buf :: "handle \<Rightarrow> (wv_buffer \<Rightarrow> wv_buffer) \<Rightarrow> world \<Rightarrow> world" where
  "update_buf b f w = w\<lparr>bufs := (bufs w)(b := f (bufs w b))\<rparr>"

text \<open>
  Modelled from the spec: \<open>wv_buffer_pool_acquire\<close> (buffer.c is not among the
  sources) returns a reusable or freshly allocated buffer. A reusable buffer is the
  head of the pool's queue; a fresh one is the object at \<open>next_buffer\<close>, which joins the
  registry (its initial content is whatever the allocator put there).
\<close>

definition wv_buffer_pool_acquire :: "handle \<Rightarrow> world \<Rightarrow> handle \<times> world" where
  "wv_buffer_pool_acquire p w =
     (case queue (pools w p) of
        b # bs \<Rightarrow> (b, w\<lparr>pools := (pools w)(p := (pools w p)\<lparr>queue := bs\<rparr>)\<rparr>)
      | [] \<Rightarrow>
          (next_buffer w,
           w\<lparr>wv_buffer_registry := next_buffer w # wv_buffer_registry w,
             next_buffer := Suc (next_buffer w)\<rparr>))"

text \<open>
  Modelled from the spec: \<open>wv_buffer_pool_release\<close> (buffer.c) returns a buffer to
  the pool for reuse.
\<close>

definition wv_buffer_pool_release :: "handle \<Rightarrow> handle \<Rightarrow> world \<Rightarrow> world" where
  "wv_buffer_pool_release p b w =
     w\<lparr>pools := (pools w)(p := (pools w p)\<lparr>queue := queue (pools w p) @ [b]\<rparr>)\<rparr>"

text \<open>
  Modelled from the spec: \<open>wv_buffer_pool_resize\<close> (buffer.c) reconfigures the pool's
  allocation template; buffers of stale geometry are invalidated lazily.
\<close>

definition wv_buffer_pool_resize ::
  "handle \<Rightarrow> wv_buffer_type \<Rightarrow> 32 word \<Rightarrow> 32 word \<Rightarrow> 32 word \<Rightarrow> 32 word \<Rightarrow> world \<Rightarrow> world" where
  "wv_buffer_pool_resize p ty width height stride fmt w =
     w\<lparr>pools := (pools w)(p := (pools w p)\<lparr>pool_type := ty, pool_width := width,
          pool_height := height, pool_stride := stride, pool_format := fmt\<rparr>)\<rparr>"

text \<open>
  Modelled from the spec: \<open>wv_buffer_damage_rect\<close> and \<open>wv_buffer_damage_whole\<close>
  (buffer.c) union a rectangle, or the whole buffer, into the damage of the buffer in
  flight. The region meant is the one accumulated for the cycle, which the delivered
  frame carries and which \<open>surface_handle_ready\<close> and \<open>surface_handle_cursor_info\<close>
  read: \<open>frame_damage\<close>.
\<close>

definition wv_buffer_damage_rect ::
  "handle \<Rightarrow> 32 word \<Rightarrow> 32 word \<Rightarrow> 32 word \<Rightarrow> 32 word \<Rightarrow> world \<Rightarrow> world" where
  "wv_buffer_damage_rect b x y width height w =
     update_buf b (\<lambda>bf. bf\<lparr>frame_damage :=
        pixman_region_union (frame_damage bf) [damage_box x y width height]\<rparr>) w"

definition wv_buffer_damage_whole :: "handle \<Rightarrow> world \<Rightarrow> world" where
  "wv_buffer_damage_whole b w =
     wv_buffer_damage_rect b 0 0 (buf_width (bufs w b)) (buf_height (bufs w b)) w"

text \<open>
  Modelled from the spec: \<open>wv_buffer_registry_damage_all\<close> (buffer.c) merges a region
  into the cross-buffer damage registry of a domain: every registered buffer of that
  domain adds the region to its own pending damage, so that pooled buffers know the
  region changed since their last use.
\<close>

definition wv_buffer_registry_damage_all ::
  "pixman_region16 \<Rightarrow> wv_buffer_domain \<Rightarrow> world \<Rightarrow> world" where
  "wv_buffer_registry_damage_all region d w =
     w\<lparr>bufs := (\<lambda>a. if a \<in> set (wv_buffer_registry w) \<and> domain (bufs w a) = d
                      then (bufs w a)\<lparr>buffer_damage :=
                             pixman_region_union (buffer_damage (bufs w a)) region\<rparr>
                      else bufs w a)\<rparr>"

section \<open>ext-screencopy.c: the capture session\<close>

text \<open>
  The anonymous struct behind the members \<open>output\<close> and \<open>cursor\<close>, here
  \<open>output_info\<close> and \<open>cursor_info\<close> (\<open>output\<close> is a keyword of the prover).
\<close>

record buffer_info =
  wl_shm_width :: "32 word"
  wl_shm_height :: "32 word"
  wl_shm_stride :: "32 word"
  wl_shm_format :: "32 word"
  have_linux_dmabuf :: bool
  dmabuf_width :: "32 word"
  dmabuf_height :: "32 word"
  dmabuf_format :: "32 word"

record ext_screencopy =
  rate_limit :: nat
  manager :: "handle option"
  wl_output :: "handle option"
  surface :: "handle option"
  render_cursors :: bool
  pool :: "handle option"
  buffer :: "handle option"
  cursor_pool :: "handle option"
  cursor_buffer :: "handle option"
  have_buffer_info :: bool
  should_start :: bool
  shall_be_immediate :: bool
  have_cursor :: bool
  output_info :: buffer_info
  cursor_info :: buffer_info
  userdata :: "handle option"
  on_done :: "handle option"

text \<open>
  Modelled from the spec: the constants of the generated protocol header
  (screencopy-unstable-v1.h is not among the sources). The commit options are a bit
  field in which IMMEDIATE and RENDER_CURSORS are two distinct bits and NONE is no bit;
  the failure reason is "invalid buffer" or any other value of the enumeration; the
  buffer type is shared memory or dma-buf.
\<close>

definition OPTIONS_NONE :: "32 word" where "OPTIONS_NONE = 0"
definition OPTIONS_IMMEDIATE :: "32 word" where "OPTIONS_IMMEDIATE = 1"
definition OPTIONS_RENDER_CURSORS :: "32 word" where "OPTIONS_RENDER_CURSORS = 2"

datatype failure_reason = FAILURE_REASON_INVALID_BUFFER | FAILURE_REASON_OTHER "32 word"

datatype buffer_type = BUFFER_TYPE_WL_SHM | BUFFER_TYPE_DMABUF

text \<open>
  \<open>zext_screencopy_manager_v1_capture_output\<close>: the request is recorded with the
  answer, which is the next one the world holds for surface creations.
\<close>

definition capture_output ::
  "handle option \<Rightarrow> handle option \<Rightarrow> world \<Rightarrow> handle option \<times> world" where
  "capture_output m out w =
     (case fresh_surfaces w of
        [] \<Rightarrow> (None, emit (Capture_output m out None) w)
      | r # rs \<Rightarrow> (r, emit (Capture_output m out r) (w\<lparr>fresh_surfaces := rs\<rparr>)))"

text \<open>\<open>ext_screencopy_init_surface\<close>: the \<open>int\<close> returned, the session and the world.\<close>

definition ext_screencopy_init_surface ::
  "ext_screencopy \<Rightarrow> world \<Rightarrow> int \<times> ext_screencopy \<times> world" where
  "ext_screencopy_init_surface self w =
     (let w1 = (case surface self of Some old \<Rightarrow> emit (Surface_destroy old) w | None \<Rightarrow> w);
          (r, w2) = capture_output (manager self) (wl_output self) w1;
          self1 = self\<lparr>surface := r\<rparr>
      in case r of
           None \<Rightarrow> (- 1, self1, w2)
         | Some h \<Rightarrow> (0, self1, emit (Surface_add_listener h) w2))"

text \<open>
  The loop of \<open>ext_screencopy_schedule_capture\<close> over the rectangles of the buffer's
  own damage. \<open>x\<close> and \<open>y\<close> are the 16-bit signed corners converted to \<open>uint32_t\<close>;
  the width and height are computed in \<open>uint32_t\<close>.
\<close>

primrec damage_hints :: "handle \<Rightarrow> pixman_box16 list \<Rightarrow> call list" where
  "damage_hints sf [] = []"
| "damage_hints sf (r # rs) =
     (let x = (scast (x1 r) :: 32 word);
          y = (scast (y1 r) :: 32 word);
          width = scast (x2 r) - x;
          height = scast (y2 r) - y
      in Damage_buffer sf x y width height # damage_hints sf rs)"

definition commit_flags :: "bool \<Rightarrow> bool \<Rightarrow> 32 word" where
  "commit_flags immediate render =
     (let flags = OPTIONS_NONE;
          flags = (if immediate then flags OR OPTIONS_IMMEDIATE else flags);
          flags = (if render then flags OR OPTIONS_RENDER_CURSORS else flags)
      in flags)"

text \<open>The cursor part of \<open>ext_screencopy_schedule_capture\<close> (\<open>if (self->have_cursor)\<close>).\<close>

definition attach_cursor ::
  "ext_screencopy \<Rightarrow> handle \<Rightarrow> world \<Rightarrow> error + ext_screencopy \<times> world" where
  "attach_cursor self sf w =
     (if have_cursor self then
        (case cursor_pool self of
           None \<Rightarrow> Inl NullDereference
         | Some cp \<Rightarrow>
             (let (c, w1) = wv_buffer_pool_acquire cp w;
                  self1 = self\<lparr>cursor_buffer := Some c\<rparr>;
                  w2 = update_buf c (\<lambda>bf. bf\<lparr>domain := WV_BUFFER_DOMAIN_CURSOR\<rparr>) w1;
                  w3 = (if pixman_region_not_empty (buffer_damage (bufs w2 c))
                        then emit (Damage_cursor_buffer sf ''default'') w2 else w2);
                  w4 = emit (Attach_cursor_buffer sf (wl_buffer (bufs w3 c)) ''default'') w3
              in Inr (self1, w4)))
      else Inr (self, w))"

definition ext_screencopy_schedule_capture ::
  "ext_screencopy \<Rightarrow> bool \<Rightarrow> world \<Rightarrow> error + ext_screencopy \<times> world" where
  "ext_screencopy_schedule_capture self immediate w =
     (case pool self of
        None \<Rightarrow> Inl NullDereference
      | Some p \<Rightarrow>
          (let (b, w1) = wv_buffer_pool_acquire p w;
               self1 = self\<lparr>buffer := Some b\<rparr>;
               w2 = update_buf b (\<lambda>bf. bf\<lparr>domain := WV_BUFFER_DOMAIN_OUTPUT\<rparr>) w1
           in case surface self1 of
                None \<Rightarrow> Inl NullDereference
              | Some sf \<Rightarrow>
                  (let w3 = emit (Attach_buffer sf (wl_buffer (bufs w2 b))) w2;
                       rects = pixman_region_rectangles (buffer_damage (bufs w3 b));
                       w4 = w3\<lparr>trace := trace w3 @ damage_hints sf rects\<rparr>;
                       flags = commit_flags immediate (render_cursors self1)
                   in case attach_cursor self1 sf w4 of
                        Inl e \<Rightarrow> Inl e
                      | Inr (self2, w5) \<Rightarrow> Inr (self2, emit (Commit sf flags) w5))))"

subsection \<open>Protocol event handlers\<close>

definition surface_handle_reconfig :: "ext_screencopy \<Rightarrow> ext_screencopy" where
  "surface_handle_reconfig self =
     self\<lparr>have_buffer_info := False,
          output_info := (output_info self)\<lparr>have_linux_dmabuf := False\<rparr>\<rparr>"

text \<open>
  The body of the \<open>switch (type)\<close> of the two buffer-info handlers;
  \<open>dmabuf\<close> says whether the build defines \<open>ENABLE_SCREENCOPY_DMABUF\<close>.
\<close>

definition store_buffer_info ::
  "bool \<Rightarrow> buffer_type \<Rightarrow> 32 word \<Rightarrow> 32 word \<Rightarrow> 32 word \<Rightarrow> 32 word \<Rightarrow> buffer_info \<Rightarrow> buffer_info" where
  "store_buffer_info dmabuf ty fmt width height stride info =
     (case ty of
        BUFFER_TYPE_WL_SHM \<Rightarrow>
          info\<lparr>wl_shm_format := fmt, wl_shm_width := width, wl_shm_height := height,
               wl_shm_stride := stride\<rparr>
      | BUFFER_TYPE_DMABUF \<Rightarrow>
          (if dmabuf
           then info\<lparr>dmabuf_format := fmt, dmabuf_width := width, dmabuf_height := height\<rparr>
           else info))"

definition surface_handle_buffer_info ::
  "bool \<Rightarrow> ext_screencopy \<Rightarrow> buffer_type \<Rightarrow> 32 word \<Rightarrow> 32 word \<Rightarrow> 32 word \<Rightarrow> 32 word
     \<Rightarrow> ext_screencopy" where
  "surface_handle_buffer_info dmabuf self ty fmt width height stride =
     self\<lparr>output_info := store_buffer_info dmabuf ty fmt width height stride (output_info self)\<rparr>"

definition surface_handle_cursor_buffer_info ::
  "bool \<Rightarrow> ext_screencopy \<Rightarrow> buffer_type \<Rightarrow> 32 word \<Rightarrow> 32 word \<Rightarrow> 32 word \<Rightarrow> 32 word
     \<Rightarrow> ext_screencopy" where
  "surface_handle_cursor_buffer_info dmabuf self ty fmt width height stride =
     self\<lparr>cursor_info := store_buffer_info dmabuf ty fmt width height stride (cursor_info self)\<rparr>"

text \<open>
  The choice \<open>surface_handle_init_done\<close> makes for each domain before resizing its
  pool: type, width, height, stride and format.
\<close>

definition negotiated ::
  "bool \<Rightarrow> buffer_info \<Rightarrow> wv_buffer_type \<times> 32 word \<times> 32 word \<times> 32 word \<times> 32 word" where
  "negotiated dmabuf info =
     (if dmabuf \<and> have_linux_dmabuf info
      then (WV_BUFFER_DMABUF, dmabuf_width info, dmabuf_height info, 0, dmabuf_format info)
      else (WV_BUFFER_SHM, wl_shm_width info, wl_shm_height info, wl_shm_stride info,
            wl_shm_format info))"

definition resize_to :: "handle \<Rightarrow> wv_buffer_type \<times> 32 word \<times> 32 word \<times> 32 word \<times> 32 word \<Rightarrow> world \<Rightarrow> world" where
  "resize_to p g w =
     (case g of (ty, width, height, stride, fmt) \<Rightarrow>
        wv_buffer_pool_resize p ty width height stride fmt w)"

definition surface_handle_init_done ::
  "bool \<Rightarrow> ext_screencopy \<Rightarrow> world \<Rightarrow> error + ext_screencopy \<times> world" where
  "surface_handle_init_done dmabuf self w =
     (case pool self of
        None \<Rightarrow> Inl NullDereference
      | Some p \<Rightarrow>
          (let w1 = resize_to p (negotiated dmabuf (output_info self)) w
           in case cursor_pool self of
                None \<Rightarrow> Inl NullDereference
              | Some cp \<Rightarrow>
                  (let w2 = resize_to cp (negotiated dmabuf (cursor_info self)) w1
                   in if should_start self then
                        (case ext_screencopy_schedule_capture self (shall_be_immediate self) w2 of
                           Inl e \<Rightarrow> Inl e
                         | Inr (self1, w3) \<Rightarrow>
                             Inr (self1\<lparr>should_start := False, shall_be_immediate := False,
                                        have_buffer_info := True\<rparr>, w3))
                      else Inr (self\<lparr>have_buffer_info := True\<rparr>, w2))))"

definition surface_handle_transform ::
  "ext_screencopy \<Rightarrow> 32 word \<Rightarrow> world \<Rightarrow> error + ext_screencopy \<times> world" where
  "surface_handle_transform self transform w =
     (case buffer self of
        None \<Rightarrow> Inl AssertionFailed
      | Some b \<Rightarrow> Inr (self, update_buf b (\<lambda>bf. bf\<lparr>nvnc_fb_transform := transform\<rparr>) w))"

text \<open>\<open>self->on_done(status, buffer, self->userdata)\<close>: a call through the pointer.\<close>

definition call_on_done ::
  "ext_screencopy \<Rightarrow> screencopy_status \<Rightarrow> handle option \<Rightarrow> world \<Rightarrow> error + ext_screencopy \<times> world" where
  "call_on_done self st b w =
     (case on_done self of
        None \<Rightarrow> Inl NullDereference
      | Some f \<Rightarrow> Inr (self, emit (On_done st b (userdata self)) w))"

definition surface_handle_ready :: "ext_screencopy \<Rightarrow> world \<Rightarrow> error + ext_screencopy \<times> world" where
  "surface_handle_ready self w =
     (case buffer self of
        None \<Rightarrow> Inl AssertionFailed
      | Some b \<Rightarrow>
          (let w1 = wv_buffer_registry_damage_all (frame_damage (bufs w b))
                      WV_BUFFER_DOMAIN_OUTPUT w;
               w2 = update_buf b (\<lambda>bf. bf\<lparr>buffer_damage := pixman_region_clear\<rparr>) w1;
               self1 = self\<lparr>buffer := None\<rparr>
           in call_on_done self1 SCREENCOPY_DONE (Some b) w2))"

definition surface_handle_failed ::
  "ext_screencopy \<Rightarrow> failure_reason \<Rightarrow> world \<Rightarrow> error + ext_screencopy \<times> world" where
  "surface_handle_failed self reason w =
     (case buffer self of
        None \<Rightarrow> Inl AssertionFailed
      | Some b \<Rightarrow>
          (case pool self of
             None \<Rightarrow> Inl NullDereference
           | Some p \<Rightarrow>
               (let w1 = wv_buffer_pool_release p b w;
                    self1 = self\<lparr>buffer := None\<rparr>;
                    (self2, w2) =
                      (if reason = FAILURE_REASON_INVALID_BUFFER
                       then snd (ext_screencopy_init_surface self1 w1)
                       else (self1, w1))
                in call_on_done self2 SCREENCOPY_FAILED None w2)))"

definition surface_handle_damage ::
  "ext_screencopy \<Rightarrow> 32 word \<Rightarrow> 32 word \<Rightarrow> 32 word \<Rightarrow> 32 word \<Rightarrow> world
     \<Rightarrow> error + ext_screencopy \<times> world" where
  "surface_handle_damage self x y width height w =
     (case buffer self of
        None \<Rightarrow> Inl NullDereference
      | Some b \<Rightarrow> Inr (self, wv_buffer_damage_rect b x y width height w))"

definition surface_handle_cursor_info ::
  "ext_screencopy \<Rightarrow> 32 word \<Rightarrow> world \<Rightarrow> error + ext_screencopy \<times> world" where
  "surface_handle_cursor_info self has_damage w =
     (case cursor_buffer self of
        None \<Rightarrow> Inl NullDereference
      | Some c \<Rightarrow>
          (let w1 = (if has_damage \<noteq> 0 then wv_buffer_damage_whole c w else w);
               w2 = wv_buffer_registry_damage_all (frame_damage (bufs w1 c))
                      WV_BUFFER_DOMAIN_CURSOR w1;
               w3 = update_buf c (\<lambda>bf. bf\<lparr>buffer_damage := pixman_region_clear\<rparr>) w2
           in case cursor_pool self of
                None \<Rightarrow> Inl NullDereference
              | Some cp \<Rightarrow> Inr (self, wv_buffer_pool_release cp c w3)))"

definition surface_handle_cursor_enter :: "ext_screencopy \<Rightarrow> ext_screencopy" where
  "surface_handle_cursor_enter self = self\<lparr>have_cursor := True\<rparr>"

definition surface_handle_cursor_leave :: "ext_screencopy \<Rightarrow> ext_screencopy" where
  "surface_handle_cursor_leave self = self\<lparr>have_cursor := False\<rparr>"

definition surface_handle_commit_time :: "ext_screencopy \<Rightarrow> ext_screencopy" where
  "surface_handle_commit_time self = self"

subsection \<open>The facade: start, stop, create, destroy\<close>

text \<open>\<open>ext_screencopy_start\<close>: the \<open>int\<close> returned (always 0), the session and the world.\<close>

definition ext_screencopy_start ::
  "ext_screencopy \<Rightarrow> bool \<Rightarrow> world \<Rightarrow> error + int \<times> ext_screencopy \<times> world" where
  "ext_screencopy_start self immediate w =
     (if \<not> have_buffer_info self
      then Inr (0, self\<lparr>should_start := True, shall_be_immediate := immediate\<rparr>, w)
      else (case ext_screencopy_schedule_capture self immediate w of
              Inl e \<Rightarrow> Inl e
            | Inr (self1, w1) \<Rightarrow> Inr (0, self1, w1)))"

definition ext_screencopy_stop :: "ext_screencopy \<Rightarrow> ext_screencopy" where
  "ext_screencopy_stop self = self"

text \<open>
  Modelled from the spec: \<open>wv_buffer_pool_create\<close> and \<open>wv_buffer_pool_destroy\<close>
  (buffer.c is not among the sources). Creating a pool is an allocation that can fail
  and then yields \<open>NULL\<close>; destroying one reads the pool, so it needs one.
\<close>

definition wv_buffer_pool_create :: "world \<Rightarrow> handle option \<times> world" where
  "wv_buffer_pool_create w =
     (case fresh_pools w of
        [] \<Rightarrow> (None, emit (Pool_create None) w)
      | r # rs \<Rightarrow> (r, emit (Pool_create r) (w\<lparr>fresh_pools := rs\<rparr>)))"

definition wv_buffer_pool_destroy :: "handle option \<Rightarrow> world \<Rightarrow> error + world" where
  "wv_buffer_pool_destroy p w =
     (case p of None \<Rightarrow> Inl NullDereference | Some q \<Rightarrow> Inr (emit (Pool_destroy q) w))"

text \<open>The session as \<open>calloc\<close> returns it: every member zero.\<close>

definition zero_info :: buffer_info where
  "zero_info = \<lparr>wl_shm_width = 0, wl_shm_height = 0, wl_shm_stride = 0, wl_shm_format = 0,
     have_linux_dmabuf = False, dmabuf_width = 0, dmabuf_height = 0, dmabuf_format = 0\<rparr>"

definition calloc_session :: ext_screencopy where
  "calloc_session = \<lparr>rate_limit = 0, manager = None, wl_output = None, surface = None,
     render_cursors = False, pool = None, buffer = None, cursor_pool = None,
     cursor_buffer = None, have_buffer_info = False, should_start = False,
     shall_be_immediate = False, have_cursor = False, output_info = zero_info,
     cursor_info = zero_info, userdata = None, on_done = None\<rparr>"

text \<open>
  \<open>ext_screencopy_create\<close>: \<open>calloc_ok\<close> says whether \<open>calloc\<close> succeeds; the result is
  the session returned (\<open>None\<close> is \<open>NULL\<close>) and the world. The labels \<open>surface_failure\<close>,
  \<open>cursor_failure\<close> and \<open>failure\<close> fall through to one another as in the source.
\<close>

definition create_failure :: "world \<Rightarrow> error + ext_screencopy option \<times> world" where
  "create_failure w = Inr (None, emit Free_session w)"

definition create_cursor_failure ::
  "ext_screencopy \<Rightarrow> world \<Rightarrow> error + ext_screencopy option \<times> world" where
  "create_cursor_failure self w =
     (case wv_buffer_pool_destroy (pool self) w of
        Inl e \<Rightarrow> Inl e
      | Inr w1 \<Rightarrow> create_failure w1)"

definition create_surface_failure ::
  "ext_screencopy \<Rightarrow> world \<Rightarrow> error + ext_screencopy option \<times> world" where
  "create_surface_failure self w =
     (case wv_buffer_pool_destroy (cursor_pool self) w of
        Inl e \<Rightarrow> Inl e
      | Inr w1 \<Rightarrow> create_cursor_failure self w1)"

definition ext_screencopy_create ::
  "bool \<Rightarrow> handle option \<Rightarrow> handle option \<Rightarrow> bool \<Rightarrow> handle option \<Rightarrow> handle option \<Rightarrow> world
     \<Rightarrow> error + ext_screencopy option \<times> world" where
  "ext_screencopy_create calloc_ok mgr out render_cursor done_fn udata w =
     (if \<not> calloc_ok then Inr (None, w)
      else
        (let self = calloc_session\<lparr>rate_limit := 30, manager := mgr, wl_output := out,
                      on_done := done_fn, userdata := udata\<rparr>;
             (p, w1) = wv_buffer_pool_create w;
             self1 = self\<lparr>pool := p\<rparr>
         in if pool self1 = None then create_failure w1
            else
              (let (cp, w2) = wv_buffer_pool_create w1;
                   self2 = self1\<lparr>cursor_pool := cp\<rparr>
               in if pool self2 = None then create_cursor_failure self2 w2
                  else
                    (case ext_screencopy_init_surface self2 w2 of
                       (r, self3, w3) \<Rightarrow>
                         if r < 0 then create_surface_failure self3 w3
                         else Inr (Some self3, w3)))))"

definition ext_screencopy_destroy :: "ext_screencopy \<Rightarrow> world \<Rightarrow> error + world" where
  "ext_screencopy_destroy self w =
     (let w1 = (case surface self of Some h \<Rightarrow> emit (Surface_destroy h) w | None \<Rightarrow> w)
      in case buffer self of
           None \<Rightarrow> Inr (emit Free_session w1)
         | Some b \<Rightarrow>
             (case pool self of
                None \<Rightarrow> Inl NullDereference
              | Some p \<Rightarrow> Inr (emit Free_session (wv_buffer_pool_release p b w1))))"

subsection \<open>Runs of the session\<close>

text \<open>
  What can happen to a session between its creation and its destruction: the twelve
  events of \<open>surface_listener\<close> and the caller's \<open>start\<close> and \<open>stop\<close>.
\<close>

datatype event =
    Reconfig
  | Buffer_info buffer_type "32 word" "32 word" "32 word" "32 word"
  | Cursor_buffer_info buffer_type "32 word" "32 word" "32 word" "32 word"
  | Cursor_enter
  | Cursor_leave
  | Init_done
  | Damage "32 word" "32 word" "32 word" "32 word"
  | Cursor_info "32 word"
  | Commit_time
  | Transform "32 word"
  | Ready
  | Failed failure_reason
  | Start bool
  | Stop

fun step :: "bool \<Rightarrow> event \<Rightarrow> ext_screencopy \<times> world \<Rightarrow> error + ext_screencopy \<times> world" where
  "step dmabuf Reconfig (self, w) = Inr (surface_handle_reconfig self, w)"
| "step dmabuf (Buffer_info ty fmt width height stride) (self, w) =
     Inr (surface_handle_buffer_info dmabuf self ty fmt width height stride, w)"
| "step dmabuf (Cursor_buffer_info ty fmt width height stride) (self, w) =
     Inr (surface_handle_cursor_buffer_info dmabuf self ty fmt width height stride, w)"
| "step dmabuf Cursor_enter (self, w) = Inr (surface_handle_cursor_enter self, w)"
| "step dmabuf Cursor_leave (self, w) = Inr (surface_handle_cursor_leave self, w)"
| "step dmabuf Init_done (self, w) = surface_handle_init_done dmabuf self w"
| "step dmabuf (Damage x y width height) (self, w) = surface_handle_damage self x y width height w"
| "step dmabuf (Cursor_info has_damage) (self, w) = surface_handle_cursor_info self has_damage w"
| "step dmabuf Commit_time (self, w) = Inr (surface_handle_commit_time self, w)"
| "step dmabuf (Transform t) (self, w) = surface_handle_transform self t w"
| "step dmabuf Ready (self, w) = surface_handle_ready self w"
| "step dmabuf (Failed reason) (self, w) = surface_handle_failed self reason w"
| "step dmabuf (Start immediate) (self, w) =
     (case ext_screencopy_start self immediate w of
        Inl e \<Rightarrow> Inl e
      | Inr (r, self1, w1) \<Rightarrow> Inr (self1, w1))"
| "step dmabuf Stop (self, w) = Inr (ext_screencopy_stop self, w)"

fun run :: "bool \<Rightarrow> event list \<Rightarrow> ext_screencopy \<times> world \<Rightarrow> error + ext_screencopy \<times> world" where
  "run dmabuf [] st = Inr st"
| "run dmabuf (e # es) st =
     (case step dmabuf e st of Inl err \<Rightarrow> Inl err | Inr st1 \<Rightarrow> run dmabuf es st1)"

text \<open>Observations of a trace: its commits, its completion callbacks, its cursor attachments.\<close>

definition is_commit :: "call \<Rightarrow> bool" where
  "is_commit c = (case c of Commit sf fl \<Rightarrow> True | _ \<Rightarrow> False)"

definition is_on_done :: "call \<Rightarrow> bool" where
  "is_on_done c = (case c of On_done st b u \<Rightarrow> True | _ \<Rightarrow> False)"

definition is_cursor_attach :: "call \<Rightarrow> bool" where
  "is_cursor_attach c = (case c of Attach_cursor_buffer sf b n \<Rightarrow> True | _ \<Rightarrow> False)"

text \<open>The presence the enter and leave signals of a run leave behind, from \<open>p\<close> before it.\<close>

fun presence :: "bool \<Rightarrow> event list \<Rightarrow> bool" where
  "presence p [] = p"
| "presence p (Cursor_enter # es) = presence True es"
| "presence p (Cursor_leave # es) = presence False es"
| "presence p (e # es) = presence p es"

section \<open>Example sessions\<close>

text \<open>
  A concrete world and a session as \<open>ext_screencopy_create\<close> returns it (manager 1,
  output 2, callback 3, user data 4, pools 10 and 11, surface 20), used to run the
  model on concrete inputs. In \<open>stale_world\<close> the output pool holds buffer 1, whose
  own damage from earlier use is the box (0,0)-(8,8).
\<close>

definition example_buffer :: "handle \<Rightarrow> wv_buffer" where
  "example_buffer a = \<lparr>domain = WV_BUFFER_DOMAIN_UNSPEC, wl_buffer = 100 + a, buf_width = 64,
     buf_height = 48, buffer_damage = [], frame_damage = [], nvnc_fb_transform = 0\<rparr>"

definition example_pool :: wv_buffer_pool where
  "example_pool = \<lparr>queue = [], pool_type = WV_BUFFER_UNSPEC, pool_width = 0, pool_height = 0,
     pool_stride = 0, pool_format = 0\<rparr>"

definition example_world :: world where
  "example_world = \<lparr>bufs = example_buffer, wv_buffer_registry = [], pools = (\<lambda>p. example_pool),
     next_buffer = 1, fresh_surfaces = [Some 21], fresh_pools = [], trace = []\<rparr>"

definition example_session :: ext_screencopy where
  "example_session = calloc_session\<lparr>rate_limit := 30, manager := Some 1, wl_output := Some 2,
     on_done := Some 3, userdata := Some 4, pool := Some 10, cursor_pool := Some 11,
     surface := Some 20\<rparr>"

definition stale_box :: pixman_box16 where
  "stale_box = \<lparr>x1 = 0, y1 = 0, x2 = 8, y2 = 8\<rparr>"

definition stale_world :: world where
  "stale_world = example_world\<lparr>
     bufs := example_buffer(1 := (example_buffer 1)\<lparr>domain := WV_BUFFER_DOMAIN_OUTPUT,
                                   buffer_damage := [stale_box]\<rparr>),
     wv_buffer_registry := [1],
     pools := (\<lambda>p. example_pool)(10 := example_pool\<lparr>queue := [1]\<rparr>),
     next_buffer := 2\<rparr>"

text \<open>
  The same session once negotiation is complete, and with buffer 1 in flight: acquired
  from the output pool of \<open>stale_world\<close>, attached, hinted and committed.
\<close>

definition negotiated_session :: ext_screencopy where
  "negotiated_session = example_session\<lparr>have_buffer_info := True\<rparr>"

definition inflight_session :: ext_screencopy where
  "inflight_session = negotiated_session\<lparr>buffer := Some 1\<rparr>"

definition inflight_world :: world where
  "inflight_world = stale_world\<lparr>pools := (\<lambda>p. example_pool),
     trace := [Attach_buffer 20 101, Damage_buffer 20 0 0 8 8, Commit 20 0]\<rparr>"

section \<open>Clipboard: theorems\<close>

text \<open>
  C10. Called with length zero, \<open>data_control_to_clipboard\<close> returns the record it was
  given: the stored clipboard data and length and both selection handles are as they
  were, whatever the text, the allocator and the compositor would have answered. The
  only thing it does is log the error.
\<close>

theorem data_control_to_clipboard_zero_length:
  "data_control_to_clipboard self text 0 malloc_ok src1 src2 =
     (self, [Log_error ''data_control_to_clipboard called with 0 length''])"
  by (simp add: data_control_to_clipboard_def)

section \<open>Scheduling a capture\<close>

lemma acquire_frame:
  "bufs (snd (wv_buffer_pool_acquire p w)) = bufs w"
  "trace (snd (wv_buffer_pool_acquire p w)) = trace w"
  "fresh_surfaces (snd (wv_buffer_pool_acquire p w)) = fresh_surfaces w"
  "fresh_pools (snd (wv_buffer_pool_acquire p w)) = fresh_pools w"
  by (simp_all add: wv_buffer_pool_acquire_def split: list.splits)

lemma acquire_depends:
  "pools w' = pools w \<Longrightarrow> next_buffer w' = next_buffer w \<Longrightarrow>
     fst (wv_buffer_pool_acquire p w') = fst (wv_buffer_pool_acquire p w)"
  by (simp add: wv_buffer_pool_acquire_def split: list.splits)

lemma damage_hints_map:
  "damage_hints sf rs =
     map (\<lambda>r. Damage_buffer sf (scast (x1 r)) (scast (y1 r))
                 (scast (x2 r) - scast (x1 r)) (scast (y2 r) - scast (y1 r))) rs"
  by (induction rs) (simp_all add: Let_def)

lemma filter_hints:
  "filter is_commit (damage_hints sf rs) = []"
  "filter is_cursor_attach (damage_hints sf rs) = []"
  "filter is_on_done (damage_hints sf rs) = []"
  by (induction rs) (simp_all add: Let_def is_commit_def is_cursor_attach_def is_on_done_def)

lemma commit_flags_bits:
  "(commit_flags imm rc AND OPTIONS_IMMEDIATE \<noteq> 0) = imm"
  "(commit_flags imm rc AND OPTIONS_RENDER_CURSORS \<noteq> 0) = rc"
  by (cases imm; cases rc;
      simp add: commit_flags_def OPTIONS_NONE_def OPTIONS_IMMEDIATE_def OPTIONS_RENDER_CURSORS_def)+

lemma attach_cursor_result:
  assumes "have_cursor s \<longrightarrow> cursor_pool s = Some cp"
    and "c = fst (wv_buffer_pool_acquire cp w)"
  shows "\<exists>w'. attach_cursor s sf w =
            Inr (s\<lparr>cursor_buffer := (if have_cursor s then Some c else cursor_buffer s)\<rparr>, w')
         \<and> trace w' = trace w @
             (if have_cursor s
              then (if buffer_damage (bufs w c) \<noteq> [] then [Damage_cursor_buffer sf ''default'']
                    else [])
                   @ [Attach_cursor_buffer sf (wl_buffer (bufs w c)) ''default'']
              else [])
         \<and> bufs w' = (if have_cursor s
                       then (bufs w)(c := (bufs w c)\<lparr>domain := WV_BUFFER_DOMAIN_CURSOR\<rparr>)
                       else bufs w)"
proof (cases "have_cursor s")
  case False
  then show ?thesis by (simp add: attach_cursor_def)
next
  case True
  obtain c' w1 where acq: "wv_buffer_pool_acquire cp w = (c', w1)" by fastforce
  with assms have c: "c' = c" by simp
  have f: "bufs w1 = bufs w" "trace w1 = trace w"
    using acquire_frame(1,2)[of cp w] acq by simp_all
  show ?thesis using True assms(1) acq c f
    by (simp add: attach_cursor_def Let_def emit_def update_buf_def
        pixman_region_not_empty_def)
qed

lemma schedule_capture_result:
  assumes p: "pool s = Some p" and sf: "surface s = Some sf"
    and cp: "have_cursor s \<longrightarrow> cursor_pool s = Some cp"
    and b: "b = fst (wv_buffer_pool_acquire p w)"
    and c: "c = fst (wv_buffer_pool_acquire cp (snd (wv_buffer_pool_acquire p w)))"
  shows "\<exists>w'. ext_screencopy_schedule_capture s imm w =
            Inr (s\<lparr>buffer := Some b,
                   cursor_buffer := (if have_cursor s then Some c else cursor_buffer s)\<rparr>, w')
         \<and> trace w' = trace w
             @ [Attach_buffer sf (wl_buffer (bufs w b))]
             @ damage_hints sf (buffer_damage (bufs w b))
             @ (if have_cursor s
                then (if buffer_damage (bufs w c) \<noteq> [] then [Damage_cursor_buffer sf ''default'']
                      else [])
                     @ [Attach_cursor_buffer sf (wl_buffer (bufs w c)) ''default'']
                else [])
             @ [Commit sf (commit_flags imm (render_cursors s))]
         \<and> domain (bufs w' b) =
             (if have_cursor s \<and> c = b then WV_BUFFER_DOMAIN_CURSOR else WV_BUFFER_DOMAIN_OUTPUT)
         \<and> (\<forall>a. frame_damage (bufs w' a) = frame_damage (bufs w a)
                \<and> buffer_damage (bufs w' a) = buffer_damage (bufs w a))"
proof -
  obtain w1 where acq: "wv_buffer_pool_acquire p w = (b, w1)"
    using b by (metis prod.collapse)
  define s1 where "s1 = s\<lparr>buffer := Some b\<rparr>"
  define w2 where "w2 = update_buf b (\<lambda>bf. bf\<lparr>domain := WV_BUFFER_DOMAIN_OUTPUT\<rparr>) w1"
  define w3 where "w3 = emit (Attach_buffer sf (wl_buffer (bufs w2 b))) w2"
  define w4 where "w4 = w3\<lparr>trace := trace w3 @ damage_hints sf
                          (pixman_region_rectangles (buffer_damage (bufs w3 b)))\<rparr>"
  have f1: "bufs w1 = bufs w" "trace w1 = trace w"
    using acquire_frame(1,2)[of p w] acq by simp_all
  have b4: "bufs w4 = (bufs w)(b := (bufs w b)\<lparr>domain := WV_BUFFER_DOMAIN_OUTPUT\<rparr>)"
    by (simp add: w4_def w3_def w2_def emit_def update_buf_def f1)
  have t4: "trace w4 = trace w @ [Attach_buffer sf (wl_buffer (bufs w b))]
                @ damage_hints sf (buffer_damage (bufs w b))"
    by (simp add: w4_def w3_def w2_def emit_def update_buf_def f1 pixman_region_rectangles_def)
  have c4: "c = fst (wv_buffer_pool_acquire cp w4)"
  proof -
    have "fst (wv_buffer_pool_acquire cp w4) = fst (wv_buffer_pool_acquire cp w1)"
      by (rule acquire_depends) (simp_all add: w4_def w3_def w2_def emit_def update_buf_def)
    then show ?thesis using c acq by simp
  qed
  have cp1: "have_cursor s1 \<longrightarrow> cursor_pool s1 = Some cp" using cp by (simp add: s1_def)
  from attach_cursor_result[OF cp1 c4, of sf] obtain w5 where
    ac: "attach_cursor s1 sf w4 =
           Inr (s1\<lparr>cursor_buffer := (if have_cursor s1 then Some c else cursor_buffer s1)\<rparr>, w5)"
    and t5: "trace w5 = trace w4 @
             (if have_cursor s1
              then (if buffer_damage (bufs w4 c) \<noteq> [] then [Damage_cursor_buffer sf ''default'']
                    else [])
                   @ [Attach_cursor_buffer sf (wl_buffer (bufs w4 c)) ''default'']
              else [])"
    and b5: "bufs w5 = (if have_cursor s1
                       then (bufs w4)(c := (bufs w4 c)\<lparr>domain := WV_BUFFER_DOMAIN_CURSOR\<rparr>)
                       else bufs w4)"
    by blast
  have run: "ext_screencopy_schedule_capture s imm w =
          Inr (s1\<lparr>cursor_buffer := (if have_cursor s1 then Some c else cursor_buffer s1)\<rparr>,
               emit (Commit sf (commit_flags imm (render_cursors s))) w5)"
    using p sf acq ac
    by (simp add: ext_screencopy_schedule_capture_def Let_def s1_def w4_def w3_def w2_def)
  show ?thesis
    apply (rule exI[of _ "emit (Commit sf (commit_flags imm (render_cursors s))) w5"])
    apply (simp add: run)
    apply (simp add: s1_def emit_def t5 t4 b5 b4)
    done
qed

lemma schedule_capture_commits:
  assumes "pool s = Some p" and "surface s = Some sf"
    and "have_cursor s \<longrightarrow> cursor_pool s = Some cp"
  shows "\<exists>b cb w'. ext_screencopy_schedule_capture s imm w =
            Inr (s\<lparr>buffer := Some b, cursor_buffer := cb\<rparr>, w')
         \<and> filter is_commit (trace w') =
             filter is_commit (trace w) @ [Commit sf (commit_flags imm (render_cursors s))]"
proof -
  from schedule_capture_result[OF assms refl refl, of imm w] obtain w' where
    r: "ext_screencopy_schedule_capture s imm w =
          Inr (s\<lparr>buffer := Some (fst (wv_buffer_pool_acquire p w)),
                 cursor_buffer := (if have_cursor s
                    then Some (fst (wv_buffer_pool_acquire cp (snd (wv_buffer_pool_acquire p w))))
                    else cursor_buffer s)\<rparr>, w')"
    and t: "trace w' = trace w
             @ [Attach_buffer sf (wl_buffer (bufs w (fst (wv_buffer_pool_acquire p w))))]
             @ damage_hints sf (buffer_damage (bufs w (fst (wv_buffer_pool_acquire p w))))
             @ (if have_cursor s
                then (if buffer_damage (bufs w (fst (wv_buffer_pool_acquire cp (snd (wv_buffer_pool_acquire p w))))) \<noteq> [] then [Damage_cursor_buffer sf ''default'']
                      else [])
                     @ [Attach_cursor_buffer sf (wl_buffer (bufs w (fst (wv_buffer_pool_acquire cp (snd (wv_buffer_pool_acquire p w)))))) ''default'']
                else [])
             @ [Commit sf (commit_flags imm (render_cursors s))]"
    by blast
  have "filter is_commit (trace w') =
          filter is_commit (trace w) @ [Commit sf (commit_flags imm (render_cursors s))]"
    by (simp add: t filter_hints is_commit_def)
  with r show ?thesis by blast
qed

text \<open>
  What a scheduled capture does, read off the session's own members. On a session that
  has its output pool and its surface (and its cursor pool when the cursor is present)
  it returns, and what it did is, in this order: the output buffer \<open>b\<close> is the one
  acquired from the output pool and it is tagged OUTPUT (unless the cursor pool then
  hands out the very same buffer, which is retagged CURSOR); the buffer is attached to
  the surface; one damage hint is sent for each rectangle of the buffer's own damage,
  none when there is none; the cursor buffer, when the cursor is present, is attached
  (after a cursor damage hint if it carries damage); one commit ends the sequence. Its
  flags have IMMEDIATE set iff \<open>immediate\<close> and RENDER_CURSORS set iff the member
  \<open>render_cursors\<close> is true. Whether that member holds what the caller configured
  is the business of \<open>ext_screencopy_create\<close>.
\<close>

lemma schedule_capture_order:
  assumes "pool s = Some p" and "surface s = Some sf"
    and "have_cursor s \<longrightarrow> cursor_pool s = Some cp"
    and "b = fst (wv_buffer_pool_acquire p w)"
    and "c = fst (wv_buffer_pool_acquire cp (snd (wv_buffer_pool_acquire p w)))"
  shows "\<exists>s' w'. ext_screencopy_schedule_capture s immediate w = Inr (s', w')
         \<and> buffer s' = Some b
         \<and> domain (bufs w' b) =
             (if have_cursor s \<and> c = b then WV_BUFFER_DOMAIN_CURSOR else WV_BUFFER_DOMAIN_OUTPUT)
         \<and> trace w' = trace w
             @ [Attach_buffer sf (wl_buffer (bufs w b))]
             @ map (\<lambda>r. Damage_buffer sf (scast (x1 r)) (scast (y1 r))
                          (scast (x2 r) - scast (x1 r)) (scast (y2 r) - scast (y1 r)))
                 (pixman_region_rectangles (buffer_damage (bufs w b)))
             @ (if have_cursor s
                then (if pixman_region_not_empty (buffer_damage (bufs w c))
                      then [Damage_cursor_buffer sf ''default''] else [])
                     @ [Attach_cursor_buffer sf (wl_buffer (bufs w c)) ''default'']
                else [])
             @ [Commit sf (commit_flags immediate (render_cursors s))]
         \<and> (commit_flags immediate (render_cursors s) AND OPTIONS_IMMEDIATE \<noteq> 0) = immediate
         \<and> (commit_flags immediate (render_cursors s) AND OPTIONS_RENDER_CURSORS \<noteq> 0)
             = render_cursors s"
proof -
  from schedule_capture_result[OF assms, of immediate] obtain w' where
    "ext_screencopy_schedule_capture s immediate w =
       Inr (s\<lparr>buffer := Some b,
              cursor_buffer := (if have_cursor s then Some c else cursor_buffer s)\<rparr>, w')"
    and "trace w' = trace w
             @ [Attach_buffer sf (wl_buffer (bufs w b))]
             @ damage_hints sf (buffer_damage (bufs w b))
             @ (if have_cursor s
                then (if buffer_damage (bufs w c) \<noteq> [] then [Damage_cursor_buffer sf ''default'']
                      else [])
                     @ [Attach_cursor_buffer sf (wl_buffer (bufs w c)) ''default'']
                else [])
             @ [Commit sf (commit_flags immediate (render_cursors s))]"
    and "domain (bufs w' b) =
             (if have_cursor s \<and> c = b then WV_BUFFER_DOMAIN_CURSOR else WV_BUFFER_DOMAIN_OUTPUT)"
    by blast
  then show ?thesis
    by (simp add: damage_hints_map pixman_region_rectangles_def pixman_region_not_empty_def
        commit_flags_bits)
qed

lemma schedule_capture_order_example:
  "\<exists>s' w'. ext_screencopy_schedule_capture (example_session\<lparr>have_cursor := True\<rparr>) True
              stale_world = Inr (s', w')
     \<and> buffer s' = Some 1
     \<and> domain (bufs w' 1) = WV_BUFFER_DOMAIN_OUTPUT
     \<and> trace w' = [Attach_buffer 20 101, Damage_buffer 20 0 0 8 8,
                   Attach_cursor_buffer 20 102 ''default'', Commit 20 1]"
proof -
  have b: "(1::nat) = fst (wv_buffer_pool_acquire 10 stale_world)"
    by (simp add: wv_buffer_pool_acquire_def stale_world_def example_world_def example_pool_def)
  have c: "(2::nat) = fst (wv_buffer_pool_acquire 11 (snd (wv_buffer_pool_acquire 10 stale_world)))"
    by (simp add: wv_buffer_pool_acquire_def stale_world_def example_world_def example_pool_def)
  have p: "pool (example_session\<lparr>have_cursor := True\<rparr>) = Some 10"
    and sf: "surface (example_session\<lparr>have_cursor := True\<rparr>) = Some 20"
    and cp: "have_cursor (example_session\<lparr>have_cursor := True\<rparr>) \<longrightarrow>
              cursor_pool (example_session\<lparr>have_cursor := True\<rparr>) = Some 11"
    by (simp_all add: example_session_def)
  show ?thesis
    using schedule_capture_order[OF p sf cp b c, of True]
    by (simp add: stale_world_def example_world_def example_buffer_def example_session_def
        calloc_session_def stale_box_def pixman_region_rectangles_def
        pixman_region_not_empty_def commit_flags_def OPTIONS_NONE_def OPTIONS_IMMEDIATE_def
        OPTIONS_RENDER_CURSORS_def)
qed

section \<open>Runs: what the handlers keep\<close>

lemma run_append:
  "run d (xs @ ys) st = (case run d xs st of Inl e \<Rightarrow> Inl e | Inr st1 \<Rightarrow> run d ys st1)"
  by (induction xs arbitrary: st) (auto split: sum.splits)

lemma init_surface_result:
  "\<exists>r w'. ext_screencopy_init_surface s w =
            (r, s\<lparr>surface := (case fresh_surfaces w of [] \<Rightarrow> None | x # xs \<Rightarrow> x)\<rparr>, w')
     \<and> trace w' = trace w
         @ (case surface s of Some old \<Rightarrow> [Surface_destroy old] | None \<Rightarrow> [])
         @ [Capture_output (manager s) (wl_output s)
              (case fresh_surfaces w of [] \<Rightarrow> None | x # xs \<Rightarrow> x)]
         @ (case (case fresh_surfaces w of [] \<Rightarrow> None | x # xs \<Rightarrow> x) of
              Some h \<Rightarrow> [Surface_add_listener h] | None \<Rightarrow> [])
     \<and> pools w' = pools w \<and> bufs w' = bufs w"
  by (cases "surface s"; cases "fresh_surfaces w"; cases "hd (fresh_surfaces w)")
     (simp_all add: ext_screencopy_init_surface_def capture_output_def emit_def Let_def)

lemma schedule_capture_keeps:
  assumes "ext_screencopy_schedule_capture s imm w = Inr (s', w')"
  shows "\<exists>b cb. s' = s\<lparr>buffer := b, cursor_buffer := cb\<rparr>"
proof -
  have ac: "\<And>t sf v t' v'. attach_cursor t sf v = Inr (t', v') \<Longrightarrow>
              \<exists>cb. t' = t\<lparr>cursor_buffer := cb\<rparr>"
    apply (auto simp: attach_cursor_def Let_def split: if_splits option.splits prod.splits)
    apply (metis ext_screencopy.surjective ext_screencopy.update_convs(9))
    done
  from assms show ?thesis
    apply (simp add: ext_screencopy_schedule_capture_def Let_def
        split: option.splits prod.splits sum.splits)
    apply (drule ac)
    apply auto
    done
qed

lemma init_done_pending:
  assumes "should_start s" and "pool s = Some p" and "cursor_pool s = Some cp"
    and "surface s = Some sf"
  shows "\<exists>b cb w'. surface_handle_init_done d s w =
            Inr (s\<lparr>buffer := Some b, cursor_buffer := cb, should_start := False,
                   shall_be_immediate := False, have_buffer_info := True\<rparr>, w')
         \<and> filter is_commit (trace w') = filter is_commit (trace w)
             @ [Commit sf (commit_flags (shall_be_immediate s) (render_cursors s))]"
proof -
  define w2 where "w2 = resize_to cp (negotiated d (cursor_info s))
                          (resize_to p (negotiated d (output_info s)) w)"
  have t2: "trace w2 = trace w"
    by (simp add: w2_def resize_to_def wv_buffer_pool_resize_def split: prod.splits)
  have c: "have_cursor s \<longrightarrow> cursor_pool s = Some cp" using assms by simp
  from schedule_capture_commits[OF assms(2) assms(4) c, of "shall_be_immediate s" w2]
  obtain b cb w' where
    r: "ext_screencopy_schedule_capture s (shall_be_immediate s) w2 =
          Inr (s\<lparr>buffer := Some b, cursor_buffer := cb\<rparr>, w')"
    and t: "filter is_commit (trace w') = filter is_commit (trace w2)
              @ [Commit sf (commit_flags (shall_be_immediate s) (render_cursors s))]"
    by blast
  have "surface_handle_init_done d s w =
          Inr (s\<lparr>buffer := Some b, cursor_buffer := cb, should_start := False,
                 shall_be_immediate := False, have_buffer_info := True\<rparr>, w')"
    using assms r by (simp add: surface_handle_init_done_def Let_def w2_def)
  with t t2 show ?thesis by auto
qed

lemma run_starts_deferred:
  "\<not> have_buffer_info s \<Longrightarrow> imms \<noteq> [] \<Longrightarrow>
     run d (map Start imms) (s, w) =
       Inr (s\<lparr>should_start := True, shall_be_immediate := last imms\<rparr>, w)"
proof (induction imms arbitrary: s)
  case Nil
  then show ?case by simp
next
  case (Cons i imms)
  show ?case
  proof (cases "imms = []")
    case True
    with Cons.prems show ?thesis by (simp add: ext_screencopy_start_def)
  next
    case False
    have "\<not> have_buffer_info (s\<lparr>should_start := True, shall_be_immediate := i\<rparr>)"
      using Cons.prems by simp
    from Cons.IH[OF this False] Cons.prems False show ?thesis
      by (simp add: ext_screencopy_start_def)
  qed
qed

text \<open>
  C2. Before negotiation is complete (\<open>have_buffer_info\<close> false) a call of
  \<open>start\<close> only records the request: it returns 0, sets \<open>should_start\<close> and stores its
  argument in \<open>shall_be_immediate\<close>, and touches nothing else. After any non-empty
  series of such calls the stored flag is the argument of the last one. When the
  negotiation-complete signal then arrives (the session having its pools and surface),
  the handler returns, the trace has gained exactly one commit, whose flags are computed
  from the last recorded argument, and both pending flags are cleared. After negotiation
  a call of \<open>start\<close> returns 0 with exactly one commit added, within the call.
\<close>

theorem start_deferred_until_negotiated:
  "(\<not> have_buffer_info s \<longrightarrow>
      ext_screencopy_start s immediate w =
        Inr (0, s\<lparr>should_start := True, shall_be_immediate := immediate\<rparr>, w))
   \<and> (\<not> have_buffer_info s \<and> imms \<noteq> [] \<longrightarrow>
        run dmabuf (map Start imms) (s, w) =
          Inr (s\<lparr>should_start := True, shall_be_immediate := last imms\<rparr>, w))
   \<and> (\<not> have_buffer_info s \<and> imms \<noteq> [] \<and> pool s = Some p \<and> cursor_pool s = Some cp
        \<and> surface s = Some sf \<longrightarrow>
        (\<exists>s' w'. run dmabuf (map Start imms @ [Init_done]) (s, w) = Inr (s', w')
           \<and> filter is_commit (trace w') = filter is_commit (trace w)
               @ [Commit sf (commit_flags (last imms) (render_cursors s))]
           \<and> \<not> should_start s' \<and> \<not> shall_be_immediate s' \<and> have_buffer_info s'))
   \<and> (have_buffer_info s \<and> pool s = Some p \<and> surface s = Some sf
        \<and> (have_cursor s \<longrightarrow> cursor_pool s = Some cp) \<longrightarrow>
        (\<exists>s' w'. ext_screencopy_start s immediate w = Inr (0, s', w')
           \<and> filter is_commit (trace w') = filter is_commit (trace w)
               @ [Commit sf (commit_flags immediate (render_cursors s))]))"
proof (intro conjI impI)
  assume "\<not> have_buffer_info s"
  then show "ext_screencopy_start s immediate w =
        Inr (0, s\<lparr>should_start := True, shall_be_immediate := immediate\<rparr>, w)"
    by (simp add: ext_screencopy_start_def)
next
  assume "\<not> have_buffer_info s \<and> imms \<noteq> []"
  then show "run dmabuf (map Start imms) (s, w) =
          Inr (s\<lparr>should_start := True, shall_be_immediate := last imms\<rparr>, w)"
    by (simp add: run_starts_deferred)
next
  assume a: "\<not> have_buffer_info s \<and> imms \<noteq> [] \<and> pool s = Some p \<and> cursor_pool s = Some cp
        \<and> surface s = Some sf"
  define s1 where "s1 = s\<lparr>should_start := True, shall_be_immediate := last imms\<rparr>"
  have r1: "run dmabuf (map Start imms) (s, w) = Inr (s1, w)"
    using a by (simp add: run_starts_deferred s1_def)
  have h: "should_start s1" "pool s1 = Some p" "cursor_pool s1 = Some cp" "surface s1 = Some sf"
    using a by (simp_all add: s1_def)
  from init_done_pending[OF h, of dmabuf w] obtain b cb w' where
    r2: "surface_handle_init_done dmabuf s1 w =
            Inr (s1\<lparr>buffer := Some b, cursor_buffer := cb, should_start := False,
                   shall_be_immediate := False, have_buffer_info := True\<rparr>, w')"
    and t: "filter is_commit (trace w') = filter is_commit (trace w)
             @ [Commit sf (commit_flags (shall_be_immediate s1) (render_cursors s1))]"
    by blast
  have "run dmabuf (map Start imms @ [Init_done]) (s, w) =
          Inr (s1\<lparr>buffer := Some b, cursor_buffer := cb, should_start := False,
                   shall_be_immediate := False, have_buffer_info := True\<rparr>, w')"
    by (simp add: run_append r1 r2)
  with t show "\<exists>s' w'. run dmabuf (map Start imms @ [Init_done]) (s, w) = Inr (s', w')
           \<and> filter is_commit (trace w') = filter is_commit (trace w)
               @ [Commit sf (commit_flags (last imms) (render_cursors s))]
           \<and> \<not> should_start s' \<and> \<not> shall_be_immediate s' \<and> have_buffer_info s'"
    by (simp add: s1_def)
next
  assume a: "have_buffer_info s \<and> pool s = Some p \<and> surface s = Some sf
        \<and> (have_cursor s \<longrightarrow> cursor_pool s = Some cp)"
  then have p: "pool s = Some p" and sf: "surface s = Some sf"
    and c: "have_cursor s \<longrightarrow> cursor_pool s = Some cp" by simp_all
  from schedule_capture_commits[OF p sf c, of immediate w] obtain b cb w' where
    "ext_screencopy_schedule_capture s immediate w =
        Inr (s\<lparr>buffer := Some b, cursor_buffer := cb\<rparr>, w')"
    and "filter is_commit (trace w') = filter is_commit (trace w)
           @ [Commit sf (commit_flags immediate (render_cursors s))]"
    by blast
  with a show "\<exists>s' w'. ext_screencopy_start s immediate w = Inr (0, s', w')
           \<and> filter is_commit (trace w') = filter is_commit (trace w)
               @ [Commit sf (commit_flags immediate (render_cursors s))]"
    by (simp add: ext_screencopy_start_def)
qed

theorem start_deferred_until_negotiated_witness:
  "run False (map Start [True, False]) (example_session, example_world) =
     Inr (example_session\<lparr>should_start := True, shall_be_immediate := False\<rparr>, example_world)
   \<and> (\<exists>s' w'. run False (map Start [True, False] @ [Init_done])
                 (example_session, example_world) = Inr (s', w')
         \<and> filter is_commit (trace w') = [Commit 20 0]
         \<and> \<not> should_start s' \<and> \<not> shall_be_immediate s' \<and> have_buffer_info s')
   \<and> (\<exists>s' w'. ext_screencopy_start (example_session\<lparr>have_buffer_info := True\<rparr>) True
                 example_world = Inr (0, s', w')
         \<and> filter is_commit (trace w') = [Commit 20 1])"
proof -
  have s: "\<not> have_buffer_info example_session" "pool example_session = Some 10"
    "cursor_pool example_session = Some 11" "surface example_session = Some 20"
    "render_cursors example_session = False" "have_cursor example_session = False"
    by (simp_all add: example_session_def calloc_session_def)
  have f: "commit_flags False False = 0" "commit_flags True False = 1"
    by (simp_all add: commit_flags_def OPTIONS_NONE_def OPTIONS_IMMEDIATE_def)
  have t: "trace example_world = []" by (simp add: example_world_def)
  have l: "[True, False] \<noteq> []" "last [True, False] = False" by simp_all
  note before = start_deferred_until_negotiated
                  [of example_session True example_world "[True, False]" False 10 11 20]
  note after = start_deferred_until_negotiated
                  [of "example_session\<lparr>have_buffer_info := True\<rparr>" True example_world "[]"
                      False 10 11 20]
  have a: "run False (map Start [True, False]) (example_session, example_world) =
     Inr (example_session\<lparr>should_start := True, shall_be_immediate := False\<rparr>, example_world)"
    using before[THEN conjunct2, THEN conjunct1] s(1) by simp
  have b0: "\<exists>s' w'. run False (map Start [True, False] @ [Init_done])
                 (example_session, example_world) = Inr (s', w')
         \<and> filter is_commit (trace w') = filter is_commit (trace example_world)
             @ [Commit 20 (commit_flags (last [True, False]) (render_cursors example_session))]
         \<and> \<not> should_start s' \<and> \<not> shall_be_immediate s' \<and> have_buffer_info s'"
    using before[THEN conjunct2, THEN conjunct2, THEN conjunct1] s(1-4) l(1) by blast
  have b: "\<exists>s' w'. run False (map Start [True, False] @ [Init_done])
                 (example_session, example_world) = Inr (s', w')
         \<and> filter is_commit (trace w') = [Commit 20 0]
         \<and> \<not> should_start s' \<and> \<not> shall_be_immediate s' \<and> have_buffer_info s'"
    using b0 by (simp add: s(5) f t)
  have c0: "\<exists>s' w'. ext_screencopy_start (example_session\<lparr>have_buffer_info := True\<rparr>) True
                 example_world = Inr (0, s', w')
         \<and> filter is_commit (trace w') = filter is_commit (trace example_world)
             @ [Commit 20 (commit_flags True
                  (render_cursors (example_session\<lparr>have_buffer_info := True\<rparr>)))]"
    using after[THEN conjunct2, THEN conjunct2, THEN conjunct2] s(2-6) by simp
  have c: "\<exists>s' w'. ext_screencopy_start (example_session\<lparr>have_buffer_info := True\<rparr>) True
                 example_world = Inr (0, s', w')
         \<and> filter is_commit (trace w') = [Commit 20 1]"
    using c0 by (simp add: s(5) f t)
  from a b c show ?thesis by blast
qed

lemma failed_result:
  assumes "buffer s = Some b" and "pool s = Some p" and "on_done s = Some f"
  shows "\<exists>w'. surface_handle_failed s reason w =
            Inr (s\<lparr>buffer := None,
                   surface := (if reason = FAILURE_REASON_INVALID_BUFFER
                               then (case fresh_surfaces w of [] \<Rightarrow> None | x # xs \<Rightarrow> x)
                               else surface s)\<rparr>, w')
         \<and> trace w' = trace w
             @ (if reason = FAILURE_REASON_INVALID_BUFFER
                then (case surface s of Some old \<Rightarrow> [Surface_destroy old] | None \<Rightarrow> [])
                     @ [Capture_output (manager s) (wl_output s)
                          (case fresh_surfaces w of [] \<Rightarrow> None | x # xs \<Rightarrow> x)]
                     @ (case (case fresh_surfaces w of [] \<Rightarrow> None | x # xs \<Rightarrow> x) of
                          Some h \<Rightarrow> [Surface_add_listener h] | None \<Rightarrow> [])
                else [])
             @ [On_done SCREENCOPY_FAILED None (userdata s)]
         \<and> pools w' = (pools w)(p := (pools w p)\<lparr>queue := queue (pools w p) @ [b]\<rparr>)
         \<and> bufs w' = bufs w"
proof (cases "reason = FAILURE_REASON_INVALID_BUFFER")
  case False
  with assms show ?thesis
    by (simp add: surface_handle_failed_def call_on_done_def Let_def emit_def
        wv_buffer_pool_release_def)
next
  case True
  define w1 where "w1 = wv_buffer_pool_release p b w"
  have w1: "fresh_surfaces w1 = fresh_surfaces w" "trace w1 = trace w" "bufs w1 = bufs w"
    "pools w1 = (pools w)(p := (pools w p)\<lparr>queue := queue (pools w p) @ [b]\<rparr>)"
    by (simp_all add: w1_def wv_buffer_pool_release_def)
  from init_surface_result[of "s\<lparr>buffer := None\<rparr>" w1] obtain r w2 where
    i: "ext_screencopy_init_surface (s\<lparr>buffer := None\<rparr>) w1 =
          (r, s\<lparr>buffer := None,
                surface := (case fresh_surfaces w of [] \<Rightarrow> None | x # xs \<Rightarrow> x)\<rparr>, w2)"
    and t: "trace w2 = trace w
         @ (case surface s of Some old \<Rightarrow> [Surface_destroy old] | None \<Rightarrow> [])
         @ [Capture_output (manager s) (wl_output s)
              (case fresh_surfaces w of [] \<Rightarrow> None | x # xs \<Rightarrow> x)]
         @ (case (case fresh_surfaces w of [] \<Rightarrow> None | x # xs \<Rightarrow> x) of
              Some h \<Rightarrow> [Surface_add_listener h] | None \<Rightarrow> [])"
    and pb: "pools w2 = pools w1" "bufs w2 = bufs w1"
    by (auto simp: w1)
  have "surface_handle_failed s reason w =
          Inr (s\<lparr>buffer := None,
                 surface := (case fresh_surfaces w of [] \<Rightarrow> None | x # xs \<Rightarrow> x)\<rparr>,
               emit (On_done SCREENCOPY_FAILED None (userdata s)) w2)"
    using assms True i
    by (simp add: surface_handle_failed_def call_on_done_def Let_def w1_def)
  then show ?thesis using True t pb w1 by (simp add: emit_def)
qed

lemma failed_without_callback:
  assumes "buffer s = Some b" and "pool s = Some p" and "on_done s = None"
  shows "surface_handle_failed s reason w = Inl NullDereference"
proof -
  from init_surface_result[of "s\<lparr>buffer := None\<rparr>" "wv_buffer_pool_release p b w"]
  obtain r sf w2 where
    "ext_screencopy_init_surface (s\<lparr>buffer := None\<rparr>) (wv_buffer_pool_release p b w) =
       (r, s\<lparr>buffer := None, surface := sf\<rparr>, w2)"
    by auto
  with assms show ?thesis
    by (simp add: surface_handle_failed_def call_on_done_def Let_def)
qed

lemma failed_keeps:
  assumes "surface_handle_failed s reason w = Inr (s', w')"
  shows "(\<exists>sf. s' = s\<lparr>buffer := None, surface := sf\<rparr>)
         \<and> filter is_commit (trace w') = filter is_commit (trace w)
         \<and> filter is_cursor_attach (trace w') = filter is_cursor_attach (trace w)"
proof -
  from assms obtain b where b: "buffer s = Some b"
    by (cases "buffer s") (simp_all add: surface_handle_failed_def)
  from assms b obtain p where p: "pool s = Some p"
    by (cases "pool s") (simp_all add: surface_handle_failed_def)
  from assms b p obtain f where f: "on_done s = Some f"
    by (cases "on_done s") (simp_all add: failed_without_callback)
  define sf where "sf = (if reason = FAILURE_REASON_INVALID_BUFFER
                         then (case fresh_surfaces w of [] \<Rightarrow> None | x # xs \<Rightarrow> x)
                         else surface s)"
  from failed_result[OF b p f, of reason w] obtain w2 where
    r: "surface_handle_failed s reason w = Inr (s\<lparr>buffer := None, surface := sf\<rparr>, w2)"
    and t: "trace w2 = trace w
             @ (if reason = FAILURE_REASON_INVALID_BUFFER
                then (case surface s of Some old \<Rightarrow> [Surface_destroy old] | None \<Rightarrow> [])
                     @ [Capture_output (manager s) (wl_output s)
                          (case fresh_surfaces w of [] \<Rightarrow> None | x # xs \<Rightarrow> x)]
                     @ (case (case fresh_surfaces w of [] \<Rightarrow> None | x # xs \<Rightarrow> x) of
                          Some h \<Rightarrow> [Surface_add_listener h] | None \<Rightarrow> [])
                else [])
             @ [On_done SCREENCOPY_FAILED None (userdata s)]"
    unfolding sf_def by blast
  from r assms have e: "s' = s\<lparr>buffer := None, surface := sf\<rparr>" "w' = w2" by simp_all
  have "filter is_commit (trace w2) = filter is_commit (trace w)"
    "filter is_cursor_attach (trace w2) = filter is_cursor_attach (trace w)"
    by (simp_all add: t is_commit_def is_cursor_attach_def split: option.splits)
  with e show ?thesis by blast
qed

lemma ready_result:
  assumes "buffer s = Some b" and "on_done s = Some f"
  shows "\<exists>w'. surface_handle_ready s w = Inr (s\<lparr>buffer := None\<rparr>, w')
         \<and> trace w' = trace w @ [On_done SCREENCOPY_DONE (Some b) (userdata s)]
         \<and> bufs w' = (\<lambda>a. if a = b then (bufs w b)\<lparr>buffer_damage := []\<rparr>
                           else if a \<in> set (wv_buffer_registry w)
                                   \<and> domain (bufs w a) = WV_BUFFER_DOMAIN_OUTPUT
                           then (bufs w a)\<lparr>buffer_damage :=
                                  buffer_damage (bufs w a) @ frame_damage (bufs w b)\<rparr>
                           else bufs w a)
         \<and> pools w' = pools w"
  using assms
  by (auto simp: surface_handle_ready_def call_on_done_def Let_def emit_def update_buf_def
      wv_buffer_registry_damage_all_def pixman_region_clear_def pixman_region_union_def
      fun_eq_iff)

lemma ready_keeps:
  assumes "surface_handle_ready s w = Inr (s', w')"
  shows "s' = s\<lparr>buffer := None\<rparr>
         \<and> filter is_commit (trace w') = filter is_commit (trace w)
         \<and> filter is_cursor_attach (trace w') = filter is_cursor_attach (trace w)"
proof -
  from assms obtain b where b: "buffer s = Some b"
    by (cases "buffer s") (simp_all add: surface_handle_ready_def)
  from assms b obtain f where f: "on_done s = Some f"
    by (cases "on_done s") (simp_all add: surface_handle_ready_def call_on_done_def Let_def)
  from ready_result[OF b f, of w] assms show ?thesis
    by (auto simp: is_commit_def is_cursor_attach_def)
qed

lemma init_done_keeps:
  assumes "surface_handle_init_done d s w = Inr (s', w')"
  shows "have_cursor s' = have_cursor s"
  using assms
  by (auto simp: surface_handle_init_done_def Let_def
      split: option.splits if_splits sum.splits dest!: schedule_capture_keeps)

lemma start_keeps:
  assumes "ext_screencopy_start s imm w = Inr (r, s', w')"
  shows "have_cursor s' = have_cursor s"
  using assms
  by (auto simp: ext_screencopy_start_def split: if_splits sum.splits
      dest!: schedule_capture_keeps)

lemma presence_step: "presence q (e # es) = presence (presence q [e]) es"
  by (cases e) simp_all

lemma step_presence:
  assumes "step d e (s, w) = Inr (s', w')"
  shows "have_cursor s' = presence (have_cursor s) [e]"
proof (cases e)
  case Init_done
  with assms show ?thesis by (simp add: init_done_keeps)
next
  case (Start imm)
  with assms show ?thesis
    by (auto split: sum.splits dest: start_keeps)
next
  case (Failed reason)
  with assms failed_keeps[of s reason w s' w'] show ?thesis by auto
next
  case Ready
  with assms ready_keeps[of s w s' w'] show ?thesis by auto
qed (use assms in \<open>auto simp: surface_handle_reconfig_def surface_handle_buffer_info_def
      surface_handle_cursor_buffer_info_def surface_handle_cursor_enter_def
      surface_handle_cursor_leave_def surface_handle_damage_def surface_handle_cursor_info_def
      surface_handle_commit_time_def surface_handle_transform_def ext_screencopy_stop_def
      Let_def split: option.splits\<close>)

lemma run_presence:
  "run d evs (s, w) = Inr (s', w') \<Longrightarrow> have_cursor s' = presence (have_cursor s) evs"
proof (induction evs arbitrary: s w)
  case Nil
  then show ?case by simp
next
  case (Cons e evs)
  from Cons.prems obtain s1 w1 where
    st: "step d e (s, w) = Inr (s1, w1)" and rn: "run d evs (s1, w1) = Inr (s', w')"
    by (auto split: sum.splits)
  from Cons.IH[OF rn] step_presence[OF st] show ?case
    by (subst presence_step) simp
qed

lemma step_no_commit:
  assumes "\<not> have_buffer_info s" and "e \<noteq> Init_done" and "step d e (s, w) = Inr (s', w')"
  shows "\<not> have_buffer_info s' \<and> filter is_commit (trace w') = filter is_commit (trace w)"
proof (cases e)
  case Init_done
  with assms show ?thesis by simp
next
  case (Start imm)
  with assms show ?thesis by (auto simp: ext_screencopy_start_def)
next
  case (Failed reason)
  with assms failed_keeps[of s reason w s' w'] show ?thesis by auto
next
  case Ready
  with assms ready_keeps[of s w s' w'] show ?thesis by auto
qed (use assms in \<open>auto simp: surface_handle_reconfig_def surface_handle_buffer_info_def
      surface_handle_cursor_buffer_info_def surface_handle_cursor_enter_def
      surface_handle_cursor_leave_def surface_handle_damage_def surface_handle_cursor_info_def
      surface_handle_commit_time_def surface_handle_transform_def ext_screencopy_stop_def
      wv_buffer_damage_rect_def wv_buffer_damage_whole_def update_buf_def
      wv_buffer_registry_damage_all_def wv_buffer_pool_release_def
      Let_def split: option.splits\<close>)

lemma run_no_commit:
  "\<not> have_buffer_info s \<Longrightarrow> Init_done \<notin> set evs \<Longrightarrow> run d evs (s, w) = Inr (s', w') \<Longrightarrow>
     \<not> have_buffer_info s' \<and> filter is_commit (trace w') = filter is_commit (trace w)"
proof (induction evs arbitrary: s w)
  case Nil
  then show ?case by simp
next
  case (Cons e evs)
  from Cons.prems obtain s1 w1 where
    st: "step d e (s, w) = Inr (s1, w1)" and rn: "run d evs (s1, w1) = Inr (s', w')"
    by (auto split: sum.splits)
  from Cons.prems have ne: "e \<noteq> Init_done" and rest: "Init_done \<notin> set evs" by auto
  from step_no_commit[OF Cons.prems(1) ne st]
  have 1: "\<not> have_buffer_info s1" and 2: "filter is_commit (trace w1) = filter is_commit (trace w)"
    by simp_all
  from Cons.IH[OF 1 rest rn] 2 show ?case by simp
qed

section \<open>Reconfiguration and cursor presence\<close>

text \<open>
  C5. The reconfiguration handler clears \<open>have_buffer_info\<close> and the output domain's
  \<open>have_linux_dmabuf\<close>. From then on, whatever events and calls follow, as long as no
  negotiation-complete signal is among them: \<open>have_buffer_info\<close> stays false, the trace
  gains no commit, and a call of \<open>start\<close> is deferred (it records the request and leaves
  the world as it is). The run is any list of events and calls, so every call of
  \<open>start\<close> inside it is covered too: it is the call after the prefix before it.
\<close>

theorem reconfig_defers_start:
  "\<not> have_buffer_info (surface_handle_reconfig s)
   \<and> \<not> have_linux_dmabuf (output_info (surface_handle_reconfig s))
   \<and> (Init_done \<notin> set evs \<and> run dmabuf evs (surface_handle_reconfig s, w) = Inr (s', w') \<longrightarrow>
        \<not> have_buffer_info s'
        \<and> filter is_commit (trace w') = filter is_commit (trace w)
        \<and> ext_screencopy_start s' immediate w' =
            Inr (0, s'\<lparr>should_start := True, shall_be_immediate := immediate\<rparr>, w'))"
proof (intro conjI impI)
  show "\<not> have_buffer_info (surface_handle_reconfig s)"
    by (simp add: surface_handle_reconfig_def)
  show "\<not> have_linux_dmabuf (output_info (surface_handle_reconfig s))"
    by (simp add: surface_handle_reconfig_def)
next
  assume a: "Init_done \<notin> set evs \<and> run dmabuf evs (surface_handle_reconfig s, w) = Inr (s', w')"
  have n: "\<not> have_buffer_info (surface_handle_reconfig s)"
    by (simp add: surface_handle_reconfig_def)
  from a run_no_commit[OF n, of evs dmabuf w s' w']
  have r: "\<not> have_buffer_info s' \<and> filter is_commit (trace w') = filter is_commit (trace w)"
    by simp
  then show "\<not> have_buffer_info s'" by simp
  from r show "filter is_commit (trace w') = filter is_commit (trace w)" by simp
  from r show "ext_screencopy_start s' immediate w' =
            Inr (0, s'\<lparr>should_start := True, shall_be_immediate := immediate\<rparr>, w')"
    by (simp add: ext_screencopy_start_def)
qed

theorem reconfig_defers_start_witness:
  "\<exists>s' w'. run False [Start True, Ready, Buffer_info BUFFER_TYPE_WL_SHM 1 64 48 256, Start False]
              (surface_handle_reconfig inflight_session, inflight_world) = Inr (s', w')
     \<and> \<not> have_buffer_info s'
     \<and> filter is_commit (trace w') = [Commit 20 0]
     \<and> ext_screencopy_start s' True w' =
         Inr (0, s'\<lparr>should_start := True, shall_be_immediate := True\<rparr>, w')"
proof -
  have "\<exists>s' w'. run False [Start True, Ready, Buffer_info BUFFER_TYPE_WL_SHM 1 64 48 256,
                            Start False]
              (surface_handle_reconfig inflight_session, inflight_world) = Inr (s', w')"
    by (simp add: surface_handle_reconfig_def inflight_session_def negotiated_session_def
        example_session_def calloc_session_def ext_screencopy_start_def
        surface_handle_ready_def call_on_done_def surface_handle_buffer_info_def Let_def)
  then obtain s' w' where
    r: "run False [Start True, Ready, Buffer_info BUFFER_TYPE_WL_SHM 1 64 48 256, Start False]
              (surface_handle_reconfig inflight_session, inflight_world) = Inr (s', w')"
    by blast
  have e: "Init_done \<notin> set [Start True, Ready, Buffer_info BUFFER_TYPE_WL_SHM 1 64 48 256,
                              Start False]"
    by simp
  have t: "filter is_commit (trace inflight_world) = [Commit 20 0]"
    by (simp add: inflight_world_def is_commit_def)
  from reconfig_defers_start
         [of inflight_session
             "[Start True, Ready, Buffer_info BUFFER_TYPE_WL_SHM 1 64 48 256, Start False]"
             False inflight_world s' w' True]
       e r t
  show ?thesis by auto
qed

text \<open>
  C6. Cursor presence is what the enter and leave signals of a run leave behind: after
  any run that returns, \<open>have_cursor\<close> is \<open>presence\<close> of the run, which looks at no other
  event. A scheduled capture (on a session with its output pool and surface, and its
  cursor pool when the cursor is present) acquires a cursor buffer from the cursor pool
  and attaches it to the commit if \<open>have_cursor\<close> is true, and leaves the cursor buffer
  alone and attaches none if it is false; nothing else of the session or of the world
  (so nothing about the output buffer) enters the decision. One commit follows either way.
\<close>

theorem cursor_attached_iff_present:
  "(run dmabuf evs (s, w) = Inr (s', w') \<longrightarrow> have_cursor s' = presence (have_cursor s) evs)
   \<and> (pool s = Some p \<and> surface s = Some sf \<and> (have_cursor s \<longrightarrow> cursor_pool s = Some cp) \<longrightarrow>
        (\<exists>s1 w1. ext_screencopy_schedule_capture s immediate w = Inr (s1, w1)
           \<and> cursor_buffer s1 =
               (if have_cursor s
                then Some (fst (wv_buffer_pool_acquire cp (snd (wv_buffer_pool_acquire p w))))
                else cursor_buffer s)
           \<and> filter is_cursor_attach (trace w1) = filter is_cursor_attach (trace w)
               @ (if have_cursor s
                  then [Attach_cursor_buffer sf
                          (wl_buffer (bufs w (fst (wv_buffer_pool_acquire cp
                                                     (snd (wv_buffer_pool_acquire p w))))))
                          ''default'']
                  else [])
           \<and> filter is_commit (trace w1) = filter is_commit (trace w)
               @ [Commit sf (commit_flags immediate (render_cursors s))]))"
proof (intro conjI impI)
  assume "run dmabuf evs (s, w) = Inr (s', w')"
  then show "have_cursor s' = presence (have_cursor s) evs" by (rule run_presence)
next
  assume a: "pool s = Some p \<and> surface s = Some sf \<and> (have_cursor s \<longrightarrow> cursor_pool s = Some cp)"
  then have p: "pool s = Some p" and sf: "surface s = Some sf"
    and c: "have_cursor s \<longrightarrow> cursor_pool s = Some cp" by simp_all
  define b where "b = fst (wv_buffer_pool_acquire p w)"
  define cb where "cb = fst (wv_buffer_pool_acquire cp (snd (wv_buffer_pool_acquire p w)))"
  from schedule_capture_result[OF p sf c b_def cb_def, of immediate] obtain w1 where
    r: "ext_screencopy_schedule_capture s immediate w =
          Inr (s\<lparr>buffer := Some b,
                 cursor_buffer := (if have_cursor s then Some cb else cursor_buffer s)\<rparr>, w1)"
    and t: "trace w1 = trace w
             @ [Attach_buffer sf (wl_buffer (bufs w b))]
             @ damage_hints sf (buffer_damage (bufs w b))
             @ (if have_cursor s
                then (if buffer_damage (bufs w cb) \<noteq> [] then [Damage_cursor_buffer sf ''default'']
                      else [])
                     @ [Attach_cursor_buffer sf (wl_buffer (bufs w cb)) ''default'']
                else [])
             @ [Commit sf (commit_flags immediate (render_cursors s))]"
    by blast
  have 1: "filter is_cursor_attach (trace w1) = filter is_cursor_attach (trace w)
             @ (if have_cursor s then [Attach_cursor_buffer sf (wl_buffer (bufs w cb)) ''default'']
                else [])"
    by (simp add: t filter_hints is_cursor_attach_def)
  have 2: "filter is_commit (trace w1) = filter is_commit (trace w)
             @ [Commit sf (commit_flags immediate (render_cursors s))]"
    by (simp add: t filter_hints is_commit_def)
  from r 1 2 show "\<exists>s1 w1. ext_screencopy_schedule_capture s immediate w = Inr (s1, w1)
           \<and> cursor_buffer s1 =
               (if have_cursor s
                then Some (fst (wv_buffer_pool_acquire cp (snd (wv_buffer_pool_acquire p w))))
                else cursor_buffer s)
           \<and> filter is_cursor_attach (trace w1) = filter is_cursor_attach (trace w)
               @ (if have_cursor s
                  then [Attach_cursor_buffer sf
                          (wl_buffer (bufs w (fst (wv_buffer_pool_acquire cp
                                                     (snd (wv_buffer_pool_acquire p w))))))
                          ''default'']
                  else [])
           \<and> filter is_commit (trace w1) = filter is_commit (trace w)
               @ [Commit sf (commit_flags immediate (render_cursors s))]"
    by (simp add: cb_def)
qed

theorem cursor_attached_iff_present_witness:
  "(\<exists>s' w'. run False [Cursor_enter, Start False, Cursor_leave, Damage 0 0 4 4, Cursor_enter]
               (inflight_session, inflight_world) = Inr (s', w') \<and> have_cursor s')
   \<and> (\<exists>s1 w1. ext_screencopy_schedule_capture (negotiated_session\<lparr>have_cursor := True\<rparr>) False
                 stale_world = Inr (s1, w1)
         \<and> cursor_buffer s1 = Some 2
         \<and> filter is_cursor_attach (trace w1) = [Attach_cursor_buffer 20 102 ''default''])
   \<and> (\<exists>s1 w1. ext_screencopy_schedule_capture negotiated_session False stale_world = Inr (s1, w1)
         \<and> cursor_buffer s1 = None
         \<and> filter is_cursor_attach (trace w1) = [])"
proof -
  have "\<exists>s' w'. run False [Cursor_enter, Start False, Cursor_leave, Damage 0 0 4 4, Cursor_enter]
               (inflight_session, inflight_world) = Inr (s', w')"
    by (simp add: inflight_session_def negotiated_session_def example_session_def
        calloc_session_def surface_handle_cursor_enter_def surface_handle_cursor_leave_def
        surface_handle_damage_def ext_screencopy_start_def ext_screencopy_schedule_capture_def
        attach_cursor_def wv_buffer_pool_acquire_def inflight_world_def stale_world_def
        example_world_def example_pool_def Let_def update_buf_def emit_def)
  then obtain s' w' where
    r: "run False [Cursor_enter, Start False, Cursor_leave, Damage 0 0 4 4, Cursor_enter]
               (inflight_session, inflight_world) = Inr (s', w')"
    by blast
  from cursor_attached_iff_present
         [of False "[Cursor_enter, Start False, Cursor_leave, Damage 0 0 4 4, Cursor_enter]"
             inflight_session inflight_world s' w', THEN conjunct1] r
  have a: "have_cursor s'" by simp
  have q: "fst (wv_buffer_pool_acquire 11 (snd (wv_buffer_pool_acquire 10 stale_world))) = 2"
    by (simp add: wv_buffer_pool_acquire_def stale_world_def example_world_def example_pool_def)
  have bw: "wl_buffer (bufs stale_world 2) = 102" "trace stale_world = []"
    by (simp_all add: stale_world_def example_world_def example_buffer_def)
  have h: "pool negotiated_session = Some 10" "surface negotiated_session = Some 20"
    "cursor_pool negotiated_session = Some 11" "have_cursor negotiated_session = False"
    "cursor_buffer negotiated_session = None"
    by (simp_all add: negotiated_session_def example_session_def calloc_session_def)
  from cursor_attached_iff_present
         [of False "[]" "negotiated_session\<lparr>have_cursor := True\<rparr>" stale_world
             "negotiated_session\<lparr>have_cursor := True\<rparr>" stale_world 10 20 11 False,
          THEN conjunct2] h q bw
  have b: "\<exists>s1 w1. ext_screencopy_schedule_capture (negotiated_session\<lparr>have_cursor := True\<rparr>) False
                 stale_world = Inr (s1, w1)
         \<and> cursor_buffer s1 = Some 2
         \<and> filter is_cursor_attach (trace w1) = [Attach_cursor_buffer 20 102 ''default'']"
    by auto
  from cursor_attached_iff_present
         [of False "[]" negotiated_session stale_world negotiated_session stale_world 10 20 11
             False, THEN conjunct2] h bw
  have c: "\<exists>s1 w1. ext_screencopy_schedule_capture negotiated_session False stale_world
                 = Inr (s1, w1)
         \<and> cursor_buffer s1 = None
         \<and> filter is_cursor_attach (trace w1) = []"
    by auto
  from a r b c show ?thesis by blast
qed

section \<open>Resolution of a capture: failed, ready, destroy\<close>

text \<open>
  C1, as the code has it. Handling the failed signal with a buffer in flight (and the
  output pool and the callback in place) returns; the buffer is appended to the queue of
  the output pool and the session forgets it; exactly one completion callback is made,
  with status FAILED and no buffer. If the reason is "invalid buffer" the surface handle
  is destroyed (when there is one) and a new one is asked of the manager at once, which
  becomes the session's surface (none, if the manager returns none); for any other reason
  the surface handle stays and the callback is the only call made. In both cases every
  other member of the session is as it was: \<open>have_buffer_info\<close>, \<open>should_start\<close> and
  \<open>shall_be_immediate\<close> are not reset.
\<close>

theorem failed_releases_buffer_and_reports:
  assumes "buffer s = Some b" and "pool s = Some p" and "on_done s = Some f"
  shows "\<exists>w'. surface_handle_failed s reason w =
            Inr (s\<lparr>buffer := None,
                   surface := (if reason = FAILURE_REASON_INVALID_BUFFER
                               then (case fresh_surfaces w of [] \<Rightarrow> None | x # xs \<Rightarrow> x)
                               else surface s)\<rparr>, w')
         \<and> queue (pools w' p) = queue (pools w p) @ [b]
         \<and> filter is_on_done (trace w') =
             filter is_on_done (trace w) @ [On_done SCREENCOPY_FAILED None (userdata s)]
         \<and> trace w' = trace w
             @ (if reason = FAILURE_REASON_INVALID_BUFFER
                then (case surface s of Some old \<Rightarrow> [Surface_destroy old] | None \<Rightarrow> [])
                     @ [Capture_output (manager s) (wl_output s)
                          (case fresh_surfaces w of [] \<Rightarrow> None | x # xs \<Rightarrow> x)]
                     @ (case (case fresh_surfaces w of [] \<Rightarrow> None | x # xs \<Rightarrow> x) of
                          Some h \<Rightarrow> [Surface_add_listener h] | None \<Rightarrow> [])
                else [])
             @ [On_done SCREENCOPY_FAILED None (userdata s)]"
proof -
  from failed_result[OF assms, of reason w] obtain w' where
    r: "surface_handle_failed s reason w =
            Inr (s\<lparr>buffer := None,
                   surface := (if reason = FAILURE_REASON_INVALID_BUFFER
                               then (case fresh_surfaces w of [] \<Rightarrow> None | x # xs \<Rightarrow> x)
                               else surface s)\<rparr>, w')"
    and t: "trace w' = trace w
             @ (if reason = FAILURE_REASON_INVALID_BUFFER
                then (case surface s of Some old \<Rightarrow> [Surface_destroy old] | None \<Rightarrow> [])
                     @ [Capture_output (manager s) (wl_output s)
                          (case fresh_surfaces w of [] \<Rightarrow> None | x # xs \<Rightarrow> x)]
                     @ (case (case fresh_surfaces w of [] \<Rightarrow> None | x # xs \<Rightarrow> x) of
                          Some h \<Rightarrow> [Surface_add_listener h] | None \<Rightarrow> [])
                else [])
             @ [On_done SCREENCOPY_FAILED None (userdata s)]"
    and q: "pools w' = (pools w)(p := (pools w p)\<lparr>queue := queue (pools w p) @ [b]\<rparr>)"
    by blast
  have "filter is_on_done (trace w') =
          filter is_on_done (trace w) @ [On_done SCREENCOPY_FAILED None (userdata s)]"
    by (simp add: t is_on_done_def split: option.splits)
  with r t q show ?thesis by simp
qed

theorem failed_releases_buffer_and_reports_witness:
  "(\<exists>w'. surface_handle_failed inflight_session FAILURE_REASON_INVALID_BUFFER inflight_world =
            Inr (inflight_session\<lparr>buffer := None, surface := Some 21\<rparr>, w')
      \<and> queue (pools w' 10) = [1]
      \<and> trace w' = [Attach_buffer 20 101, Damage_buffer 20 0 0 8 8, Commit 20 0,
                    Surface_destroy 20, Capture_output (Some 1) (Some 2) (Some 21),
                    Surface_add_listener 21, On_done SCREENCOPY_FAILED None (Some 4)])
   \<and> (\<exists>w'. surface_handle_failed inflight_session (FAILURE_REASON_OTHER 0) inflight_world =
            Inr (inflight_session\<lparr>buffer := None, surface := Some 20\<rparr>, w')
      \<and> queue (pools w' 10) = [1]
      \<and> trace w' = [Attach_buffer 20 101, Damage_buffer 20 0 0 8 8, Commit 20 0,
                    On_done SCREENCOPY_FAILED None (Some 4)])"
proof -
  have h: "buffer inflight_session = Some 1" "pool inflight_session = Some 10"
    "on_done inflight_session = Some 3"
    and v: "surface inflight_session = Some 20" "manager inflight_session = Some 1"
    "wl_output inflight_session = Some 2" "userdata inflight_session = Some 4"
    by (simp_all add: inflight_session_def negotiated_session_def example_session_def
        calloc_session_def)
  have w: "fresh_surfaces inflight_world = [Some 21]" "queue (pools inflight_world 10) = []"
    "trace inflight_world = [Attach_buffer 20 101, Damage_buffer 20 0 0 8 8, Commit 20 0]"
    by (simp_all add: inflight_world_def stale_world_def example_world_def example_pool_def)
  from failed_releases_buffer_and_reports[OF h, of FAILURE_REASON_INVALID_BUFFER inflight_world]
  have a: "\<exists>w'. surface_handle_failed inflight_session FAILURE_REASON_INVALID_BUFFER
                   inflight_world =
            Inr (inflight_session\<lparr>buffer := None, surface := Some 21\<rparr>, w')
      \<and> queue (pools w' 10) = [1]
      \<and> trace w' = [Attach_buffer 20 101, Damage_buffer 20 0 0 8 8, Commit 20 0,
                    Surface_destroy 20, Capture_output (Some 1) (Some 2) (Some 21),
                    Surface_add_listener 21, On_done SCREENCOPY_FAILED None (Some 4)]"
    by (auto simp add: v w)
  from failed_releases_buffer_and_reports[OF h, of "FAILURE_REASON_OTHER 0" inflight_world]
  have b: "\<exists>w'. surface_handle_failed inflight_session (FAILURE_REASON_OTHER 0) inflight_world =
            Inr (inflight_session\<lparr>buffer := None, surface := Some 20\<rparr>, w')
      \<and> queue (pools w' 10) = [1]
      \<and> trace w' = [Attach_buffer 20 101, Damage_buffer 20 0 0 8 8, Commit 20 0,
                    On_done SCREENCOPY_FAILED None (Some 4)]"
    by (auto simp add: v w)
  from a b show ?thesis by blast
qed

text \<open>
  C1 as stated fails: after a failure with reason "invalid buffer" the session is not
  back in its initial state. The session below completes negotiation, commits a capture
  on surface 20 and gets the failure. Afterwards \<open>have_buffer_info\<close> is still true and
  the surface is the new one, 21; a further \<open>start\<close> is therefore not deferred: it commits
  on surface 21 at once, although no negotiation has taken place on that surface.
\<close>

theorem failed_invalid_buffer_no_reset:
  "(\<exists>s1 w1. run False [Init_done, Start False, Failed FAILURE_REASON_INVALID_BUFFER]
               (example_session, stale_world) = Inr (s1, w1)
       \<and> have_buffer_info s1 \<and> surface s1 = Some 21
       \<and> filter is_commit (trace w1) = [Commit 20 0])
   \<and> (\<exists>s2 w2. run False [Init_done, Start False, Failed FAILURE_REASON_INVALID_BUFFER,
                         Start False]
               (example_session, stale_world) = Inr (s2, w2)
       \<and> filter is_commit (trace w2) = [Commit 20 0, Commit 21 0])"
  by (simp add: example_session_def calloc_session_def stale_world_def example_world_def
      example_pool_def example_buffer_def stale_box_def zero_info_def
      surface_handle_init_done_def negotiated_def resize_to_def wv_buffer_pool_resize_def
      ext_screencopy_start_def ext_screencopy_schedule_capture_def attach_cursor_def
      wv_buffer_pool_acquire_def update_buf_def emit_def pixman_region_rectangles_def
      commit_flags_def OPTIONS_NONE_def surface_handle_failed_def wv_buffer_pool_release_def
      ext_screencopy_init_surface_def capture_output_def call_on_done_def is_commit_def
      Let_def)

lemma run_damages:
  assumes "buffer s = Some b"
  shows "run d (map (\<lambda>(x, y, wd, ht). Damage x y wd ht) ds) (s, w) =
           Inr (s, w\<lparr>bufs := (bufs w)(b := (bufs w b)\<lparr>frame_damage :=
                  frame_damage (bufs w b) @ map (\<lambda>(x, y, wd, ht). damage_box x y wd ht) ds\<rparr>)\<rparr>)"
proof (induction ds arbitrary: w)
  case Nil
  then show ?case by simp
next
  case (Cons r ds)
  obtain x y wd ht where r: "r = (x, y, wd, ht)" by (cases r) auto
  define w1 where "w1 = wv_buffer_damage_rect b x y wd ht w"
  have w1: "w1 = w\<lparr>bufs := (bufs w)(b := (bufs w b)\<lparr>frame_damage :=
                      frame_damage (bufs w b) @ [damage_box x y wd ht]\<rparr>)\<rparr>"
    by (simp add: w1_def wv_buffer_damage_rect_def update_buf_def pixman_region_union_def)
  have "run d (map (\<lambda>(x, y, wd, ht). Damage x y wd ht) (r # ds)) (s, w) =
          run d (map (\<lambda>(x, y, wd, ht). Damage x y wd ht) ds) (s, w1)"
    using assms by (simp add: r surface_handle_damage_def w1_def)
  also have "\<dots> = Inr (s, w1\<lparr>bufs := (bufs w1)(b := (bufs w1 b)\<lparr>frame_damage :=
                  frame_damage (bufs w1 b) @ map (\<lambda>(x, y, wd, ht). damage_box x y wd ht) ds\<rparr>)\<rparr>)"
    by (rule Cons.IH)
  also have "w1\<lparr>bufs := (bufs w1)(b := (bufs w1 b)\<lparr>frame_damage :=
                  frame_damage (bufs w1 b) @ map (\<lambda>(x, y, wd, ht). damage_box x y wd ht) ds\<rparr>)\<rparr>
             = w\<lparr>bufs := (bufs w)(b := (bufs w b)\<lparr>frame_damage :=
                  frame_damage (bufs w b)
                  @ map (\<lambda>(x, y, wd, ht). damage_box x y wd ht) (r # ds)\<rparr>)\<rparr>"
    by (simp add: w1 r)
  finally show ?case .
qed

text \<open>
  C3, as the code has it. With a buffer \<open>b\<close> in flight, any series of damage signals
  followed by the ready signal returns, and then: the delivered buffer's frame damage is
  the frame damage it carried before, followed by one box per reported rectangle (the
  union of the two); the buffer's own pending damage is empty; every other registered
  buffer of the OUTPUT domain has had the delivered frame damage merged into its own
  pending damage, and all remaining buffers are untouched; the session holds no buffer;
  and the one call made is the completion callback with status DONE and \<open>b\<close>. The
  buffer's own pending damage from before the commit is not part of the delivered frame
  damage.
\<close>

theorem ready_delivers_reported_damage:
  assumes "buffer s = Some b" and "on_done s = Some f"
  shows "\<exists>w'. run dmabuf (map (\<lambda>(x, y, wd, ht). Damage x y wd ht) ds @ [Ready]) (s, w) =
            Inr (s\<lparr>buffer := None\<rparr>, w')
         \<and> frame_damage (bufs w' b) =
             pixman_region_union (frame_damage (bufs w b))
               (map (\<lambda>(x, y, wd, ht). damage_box x y wd ht) ds)
         \<and> buffer_damage (bufs w' b) = pixman_region_clear
         \<and> (\<forall>a. a \<noteq> b \<longrightarrow> bufs w' a =
               (if a \<in> set (wv_buffer_registry w) \<and> domain (bufs w a) = WV_BUFFER_DOMAIN_OUTPUT
                then (bufs w a)\<lparr>buffer_damage :=
                       pixman_region_union (buffer_damage (bufs w a)) (frame_damage (bufs w' b))\<rparr>
                else bufs w a))
         \<and> trace w' = trace w @ [On_done SCREENCOPY_DONE (Some b) (userdata s)]"
proof -
  define w1 where "w1 = w\<lparr>bufs := (bufs w)(b := (bufs w b)\<lparr>frame_damage :=
      frame_damage (bufs w b) @ map (\<lambda>(x, y, wd, ht). damage_box x y wd ht) ds\<rparr>)\<rparr>"
  have r1: "run dmabuf (map (\<lambda>(x, y, wd, ht). Damage x y wd ht) ds) (s, w) = Inr (s, w1)"
    unfolding w1_def by (rule run_damages[OF assms(1)])
  from ready_result[OF assms, of w1] obtain w' where
    r2: "surface_handle_ready s w1 = Inr (s\<lparr>buffer := None\<rparr>, w')"
    and t: "trace w' = trace w1 @ [On_done SCREENCOPY_DONE (Some b) (userdata s)]"
    and bf: "bufs w' = (\<lambda>a. if a = b then (bufs w1 b)\<lparr>buffer_damage := []\<rparr>
                           else if a \<in> set (wv_buffer_registry w1)
                                   \<and> domain (bufs w1 a) = WV_BUFFER_DOMAIN_OUTPUT
                           then (bufs w1 a)\<lparr>buffer_damage :=
                                  buffer_damage (bufs w1 a) @ frame_damage (bufs w1 b)\<rparr>
                           else bufs w1 a)"
    by blast
  have "run dmabuf (map (\<lambda>(x, y, wd, ht). Damage x y wd ht) ds @ [Ready]) (s, w) =
          Inr (s\<lparr>buffer := None\<rparr>, w')"
    by (simp add: run_append r1 r2)
  then show ?thesis
    by (simp add: t bf w1_def pixman_region_union_def pixman_region_clear_def)
qed

theorem ready_delivers_reported_damage_witness:
  "\<exists>w'. run False (map (\<lambda>(x, y, wd, ht). Damage x y wd ht) [(0, 0, 10, 10), (5, 5, 10, 10)]
                    @ [Ready]) (inflight_session, inflight_world) =
           Inr (inflight_session\<lparr>buffer := None\<rparr>, w')
     \<and> frame_damage (bufs w' 1) =
         [\<lparr>x1 = 0, y1 = 0, x2 = 10, y2 = 10\<rparr>, \<lparr>x1 = 5, y1 = 5, x2 = 15, y2 = 15\<rparr>]
     \<and> buffer_damage (bufs w' 1) = []
     \<and> trace w' = [Attach_buffer 20 101, Damage_buffer 20 0 0 8 8, Commit 20 0,
                   On_done SCREENCOPY_DONE (Some 1) (Some 4)]"
proof -
  have h: "buffer inflight_session = Some 1" "on_done inflight_session = Some 3"
    and v: "userdata inflight_session = Some 4"
    by (simp_all add: inflight_session_def negotiated_session_def example_session_def
        calloc_session_def)
  have w: "frame_damage (bufs inflight_world (Suc 0)) = []"
    "trace inflight_world = [Attach_buffer 20 101, Damage_buffer 20 0 0 8 8, Commit 20 0]"
    by (simp_all add: inflight_world_def stale_world_def example_world_def example_buffer_def)
  from ready_delivers_reported_damage
         [OF h, of False "[(0, 0, 10, 10), (5, 5, 10, 10)]" inflight_world]
  show ?thesis
    by (auto simp add: v w pixman_region_union_def pixman_region_clear_def damage_box_def)
qed

text \<open>
  C3 as stated fails. Buffer 1 waits in the output pool with pending damage of its own,
  the box (0,0)-(8,8). A capture is started and the compositor signals ready without
  reporting damage. The pending damage was sent as a hint at commit, but the frame
  damage of the delivered buffer is empty: it is not the union of the reported
  rectangles (none) with the buffer's pending damage from before.
\<close>

theorem ready_omits_pending_damage:
  "buffer_damage (bufs stale_world 1) = [stale_box]
   \<and> (\<exists>s' w'. run False [Start False, Ready] (negotiated_session, stale_world) = Inr (s', w')
         \<and> trace w' = [Attach_buffer 20 101, Damage_buffer 20 0 0 8 8, Commit 20 0,
                       On_done SCREENCOPY_DONE (Some 1) (Some 4)]
         \<and> frame_damage (bufs w' 1) = []
         \<and> set (frame_damage (bufs w' 1)) \<noteq>
             set (pixman_region_union [] (buffer_damage (bufs stale_world 1))))"
  by (simp add: negotiated_session_def example_session_def calloc_session_def stale_world_def
      example_world_def example_pool_def example_buffer_def stale_box_def
      ext_screencopy_start_def ext_screencopy_schedule_capture_def attach_cursor_def
      wv_buffer_pool_acquire_def update_buf_def emit_def pixman_region_rectangles_def
      commit_flags_def OPTIONS_NONE_def surface_handle_ready_def call_on_done_def
      wv_buffer_registry_damage_all_def pixman_region_union_def pixman_region_clear_def
      Let_def)

text \<open>
  C7, as the code has it. On every session whose output pool is there when an output
  buffer is in flight, \<open>destroy\<close> returns at once: it destroys the surface handle, if
  there is one, returns the output buffer in flight, if there is one, to the output
  pool, and frees the session. It changes no other pool and no buffer.
\<close>

theorem destroy_releases_output_buffer:
  assumes "buffer s \<noteq> None \<longrightarrow> pool s = Some p"
  shows "\<exists>w'. ext_screencopy_destroy s w = Inr w'
         \<and> trace w' = trace w
             @ (case surface s of Some h \<Rightarrow> [Surface_destroy h] | None \<Rightarrow> [])
             @ [Free_session]
         \<and> pools w' =
             (case buffer s of
                Some b \<Rightarrow> (pools w)(p := (pools w p)\<lparr>queue := queue (pools w p) @ [b]\<rparr>)
              | None \<Rightarrow> pools w)
         \<and> bufs w' = bufs w"
  using assms
  by (cases "surface s"; cases "buffer s")
     (simp_all add: ext_screencopy_destroy_def emit_def wv_buffer_pool_release_def)

theorem destroy_releases_output_buffer_witness:
  "\<exists>w'. ext_screencopy_destroy inflight_session inflight_world = Inr w'
     \<and> trace w' = [Attach_buffer 20 101, Damage_buffer 20 0 0 8 8, Commit 20 0,
                   Surface_destroy 20, Free_session]
     \<and> queue (pools w' 10) = [1]"
proof -
  have h: "buffer inflight_session \<noteq> None \<longrightarrow> pool inflight_session = Some 10"
    and v: "buffer inflight_session = Some 1" "surface inflight_session = Some 20"
    by (simp_all add: inflight_session_def negotiated_session_def example_session_def
        calloc_session_def)
  have w: "queue (pools inflight_world 10) = []"
    "trace inflight_world = [Attach_buffer 20 101, Damage_buffer 20 0 0 8 8, Commit 20 0]"
    by (simp_all add: inflight_world_def stale_world_def example_world_def example_pool_def)
  from destroy_releases_output_buffer[OF h, of inflight_world]
  show ?thesis by (auto simp add: v w)
qed

text \<open>
  C7 as stated fails for the cursor buffer. With the cursor present, a capture acquires
  buffer 1 from the output pool and buffer 2 for the cursor. Destroying the session
  before the cursor information arrives returns buffer 1 to the output pool; buffer 2
  is in no pool afterwards, and the session that held it is freed.
\<close>

theorem destroy_leaves_cursor_buffer:
  "\<exists>s' w'. run False [Cursor_enter, Start False] (negotiated_session, stale_world) = Inr (s', w')
     \<and> buffer s' = Some 1 \<and> cursor_buffer s' = Some 2
     \<and> (\<exists>w''. ext_screencopy_destroy s' w' = Inr w''
           \<and> queue (pools w'' 10) = [1]
           \<and> queue (pools w'' 11) = []
           \<and> 2 \<notin> set (queue (pools w'' 10)) \<and> 2 \<notin> set (queue (pools w'' 11))
           \<and> trace w'' = [Attach_buffer 20 101, Damage_buffer 20 0 0 8 8,
                          Attach_cursor_buffer 20 102 ''default'', Commit 20 0,
                          Surface_destroy 20, Free_session])"
  by (simp add: negotiated_session_def example_session_def calloc_session_def stale_world_def
      example_world_def example_pool_def example_buffer_def stale_box_def
      surface_handle_cursor_enter_def pixman_region_not_empty_def
      ext_screencopy_start_def ext_screencopy_schedule_capture_def attach_cursor_def
      wv_buffer_pool_acquire_def update_buf_def emit_def pixman_region_rectangles_def
      commit_flags_def OPTIONS_NONE_def ext_screencopy_destroy_def wv_buffer_pool_release_def
      Let_def)

section \<open>Creation and the clipboard write\<close>

text \<open>
  C8 at the failing input: \<open>calloc\<close> and the creation of the output pool (10) succeed,
  the creation of the cursor pool fails, the surface (20) is created. The check after
  the second \<open>wv_buffer_pool_create\<close> tests \<open>self->pool\<close> again, so the failure goes
  unnoticed and \<open>create\<close> returns a session whose cursor pool is \<open>NULL\<close>. When the
  surface cannot be created either, the failure path hands that \<open>NULL\<close> to
  \<open>wv_buffer_pool_destroy\<close>.
\<close>

theorem create_returns_session_without_cursor_pool:
  "(\<exists>s w'. ext_screencopy_create True (Some 1) (Some 2) False (Some 3) (Some 4)
              (example_world\<lparr>fresh_pools := [Some 10, None], fresh_surfaces := [Some 20]\<rparr>)
            = Inr (Some s, w')
      \<and> pool s = Some 10 \<and> cursor_pool s = None \<and> surface s = Some 20
      \<and> trace w' = [Pool_create (Some 10), Pool_create None,
                    Capture_output (Some 1) (Some 2) (Some 20), Surface_add_listener 20])
   \<and> ext_screencopy_create True (Some 1) (Some 2) False (Some 3) (Some 4)
        (example_world\<lparr>fresh_pools := [Some 10, None], fresh_surfaces := [None]\<rparr>)
      = Inl NullDereference"
  by (simp add: ext_screencopy_create_def wv_buffer_pool_create_def example_world_def
      calloc_session_def ext_screencopy_init_surface_def capture_output_def emit_def
      create_surface_failure_def create_cursor_failure_def create_failure_def
      wv_buffer_pool_destroy_def Let_def)

text \<open>
  When both pools are created, \<open>create\<close> behaves: it returns the session with both
  pools and the surface, or, when the surface cannot be created, destroys the cursor
  pool and the output pool once each, frees the session and returns \<open>NULL\<close>.
\<close>

lemma create_with_both_pools:
  "(\<exists>w'. ext_screencopy_create True (Some 1) (Some 2) False (Some 3) (Some 4)
            (example_world\<lparr>fresh_pools := [Some 10, Some 11], fresh_surfaces := [Some 20]\<rparr>)
          = Inr (Some example_session, w'))
   \<and> (\<exists>w'. ext_screencopy_create True (Some 1) (Some 2) False (Some 3) (Some 4)
            (example_world\<lparr>fresh_pools := [Some 10, Some 11], fresh_surfaces := [None]\<rparr>)
          = Inr (None, w')
        \<and> trace w' = [Pool_create (Some 10), Pool_create (Some 11),
                      Capture_output (Some 1) (Some 2) None, Pool_destroy 11, Pool_destroy 10,
                      Free_session])"
  by (simp add: ext_screencopy_create_def wv_buffer_pool_create_def example_world_def
      example_session_def calloc_session_def ext_screencopy_init_surface_def
      capture_output_def emit_def create_surface_failure_def create_cursor_failure_def
      create_failure_def wv_buffer_pool_destroy_def Let_def)

text \<open>
  Whatever the caller passes as \<open>render_cursor\<close>, the session \<open>create\<close> returns has
  \<open>render_cursors\<close> false: the argument is never stored.
\<close>

lemma create_ignores_render_cursor:
  assumes "ext_screencopy_create calloc_ok mgr out render_cursor done_fn udata w = Inr (Some s, w')"
  shows "\<not> render_cursors s"
proof -
  have i: "\<And>t v r t' v'. ext_screencopy_init_surface t v = (r, t', v') \<Longrightarrow>
             render_cursors t' = render_cursors t"
    by (auto simp: ext_screencopy_init_surface_def Let_def split: prod.splits option.splits)
  from assms show ?thesis
    by (auto simp: ext_screencopy_create_def Let_def create_failure_def
        create_cursor_failure_def create_surface_failure_def calloc_session_def
        split: if_splits prod.splits sum.splits dest!: i)
qed

text \<open>
  C4 at the failing input: the caller creates the session with \<open>render_cursor\<close> true
  (both pools and the surface are created), negotiation completes and the caller starts
  an immediate capture. The session's \<open>render_cursors\<close> is false, and the one commit
  carries the flags of an immediate capture without cursors: IMMEDIATE alone, the
  RENDER_CURSORS bit not set, although the caller configured it. The bit would be set
  had \<open>create\<close> stored its argument.
\<close>

theorem create_drops_render_cursor:
  "\<exists>s w. ext_screencopy_create True (Some 1) (Some 2) True (Some 3) (Some 4)
            (stale_world\<lparr>fresh_pools := [Some 10, Some 11], fresh_surfaces := [Some 20]\<rparr>)
          = Inr (Some s, w)
     \<and> \<not> render_cursors s
     \<and> (\<exists>s' w'. run False [Init_done, Start True] (s, w) = Inr (s', w')
           \<and> filter is_commit (trace w') = [Commit 20 (commit_flags True False)]
           \<and> commit_flags True False = OPTIONS_IMMEDIATE
           \<and> commit_flags True False AND OPTIONS_RENDER_CURSORS = 0
           \<and> commit_flags True True AND OPTIONS_RENDER_CURSORS \<noteq> 0)"
  by (simp add: ext_screencopy_create_def wv_buffer_pool_create_def
      calloc_session_def stale_world_def example_world_def
      example_pool_def example_buffer_def stale_box_def zero_info_def
      ext_screencopy_init_surface_def capture_output_def
      surface_handle_init_done_def negotiated_def resize_to_def wv_buffer_pool_resize_def
      ext_screencopy_start_def ext_screencopy_schedule_capture_def attach_cursor_def
      wv_buffer_pool_acquire_def update_buf_def emit_def pixman_region_rectangles_def
      commit_flags_def OPTIONS_NONE_def OPTIONS_IMMEDIATE_def OPTIONS_RENDER_CURSORS_def
      is_commit_def Let_def)

text \<open>
  C9 at the failing input: the clipboard holds \<open>2^31\<close> bytes and \<open>write\<close> transfers 100
  of them. \<open>(int)len\<close> is negative, the comparison \<open>ret < (int)len\<close> is false, and the
  partial write is not logged. The descriptor is still closed once and the write is not
  retried.
\<close>

theorem source_send_partial_write_unlogged:
  "data_control_source_send (self\<lparr>cb_data := Some d, cb_len := 0x80000000\<rparr>) fd 100 =
     Inr [Sys_write fd d 0x80000000, Sys_close fd]"
  by (simp add: data_control_source_send_def)

text \<open>
  For a clipboard shorter than \<open>2^31\<close> bytes the handler does what C9 says: a write
  that transfers fewer bytes than stored (or fails with -1) is logged, not retried, and
  the descriptor is closed once; a complete write is not logged.
\<close>

lemma source_send_short:
  assumes "cb_data self = Some d" and "uint (cb_len self) < 2 ^ 31"
    and "- 1 \<le> sint wr" and "sint wr \<le> uint (cb_len self)"
  shows "data_control_source_send self fd wr =
           Inr ([Sys_write fd d (cb_len self)]
                @ (if sint wr < uint (cb_len self)
                   then [Log_error ''write from clipboard incomplete''] else [])
                @ [Sys_close fd])"
proof -
  have "0 \<le> uint (cb_len self)" by simp
  then have "- (2 ^ 31) \<le> uint (cb_len self)" by (rule order_trans[rotated]) simp
  with assms(2) have "signed_take_bit 31 (uint (cb_len self)) = uint (cb_len self)"
    by (simp add: signed_take_bit_int_eq_self_iff)
  moreover have "uint (cb_len self) mod 4294967296 = uint (cb_len self)"
    using assms(2) by simp
  ultimately have len: "sint (ucast (cb_len self) :: 32 word) = uint (cb_len self)"
    by (simp add: sint_uint unsigned_ucast_eq take_bit_eq_mod)
  have "- (2 ^ 31) \<le> sint wr" "sint wr < 2 ^ 31" using assms by simp_all
  then have "signed_take_bit 31 (sint wr) = sint wr"
    by (simp add: signed_take_bit_int_eq_self_iff)
  then have ret: "sint (ucast wr :: 32 word) = sint wr"
    by (simp add: sint_uint unsigned_ucast_eq signed_take_bit_take_bit)
  show ?thesis using assms(1) by (simp add: data_control_source_send_def Let_def len ret)
qed

end
